theory Spec2Isabelle
  imports Complex_Main
begin

section \<open>Tensors\<close>

text \<open>
  The module under verification (\<^verbatim>\<open>pypots/modules/self_attention.py\<close>) is written
  against the tensor library. A tensor is modelled as the library stores a contiguous
  one: a shape and the row-major list of its elements. Elements are real numbers: the
  model is the exact arithmetic that the floating-point computation approximates.
  Sizes are natural numbers.
\<close>

datatype error =
    RuntimeError
  | TypeError string
  | AttributeError string
  | IndexError
  | ValueError

record tensor =
  shape :: "nat list"
  data :: "real list"

definition numel :: "tensor \<Rightarrow> nat" where
  "numel t = prod_list (shape t)"

definition wf_tensor :: "tensor \<Rightarrow> bool" where
  "wf_tensor t = (length (data t) = prod_list (shape t))"

text \<open>Row-major offset of a multi-index, and the multi-index of an offset.\<close>

fun ravel :: "nat list \<Rightarrow> nat list \<Rightarrow> nat" where
  "ravel (n # ns) (i # is) = i * prod_list ns + ravel ns is"
| "ravel _ _ = 0"

fun unravel :: "nat list \<Rightarrow> nat \<Rightarrow> nat list" where
  "unravel [] k = []"
| "unravel (n # ns) k = (k div prod_list ns) # unravel ns (k mod prod_list ns)"

definition valid_idx :: "nat list \<Rightarrow> nat list \<Rightarrow> bool" where
  "valid_idx sh idx = list_all2 (<) idx sh"

definition tab :: "nat list \<Rightarrow> (nat list \<Rightarrow> real) \<Rightarrow> tensor" where
  "tab sh f = \<lparr>shape = sh, data = map (\<lambda>k. f (unravel sh k)) [0..<prod_list sh]\<rparr>"

definition elem :: "tensor \<Rightarrow> nat list \<Rightarrow> real" where
  "elem t idx = data t ! ravel (shape t) idx"

definition sum_upto :: "nat \<Rightarrow> (nat \<Rightarrow> real) \<Rightarrow> real" where
  "sum_upto n f = sum_list (map f [0..<n])"

subsection \<open>Broadcasting\<close>

text \<open>
  Two shapes are aligned at their last dimension; two sizes are compatible when they are
  equal or one of them is 1. \<open>bidx sh idx\<close> is the index into an operand of shape
  \<open>sh\<close> that an index \<open>idx\<close> of the broadcast result reads.
\<close>

fun broadcast_rev :: "nat list \<Rightarrow> nat list \<Rightarrow> nat list option" where
  "broadcast_rev [] ys = Some ys"
| "broadcast_rev (x # xs) [] = Some (x # xs)"
| "broadcast_rev (x # xs) (y # ys) =
     (if x = y \<or> y = 1 then map_option ((#) x) (broadcast_rev xs ys)
      else if x = 1 then map_option ((#) y) (broadcast_rev xs ys)
      else None)"

definition broadcast_shapes :: "nat list \<Rightarrow> nat list \<Rightarrow> nat list option" where
  "broadcast_shapes a b = map_option rev (broadcast_rev (rev a) (rev b))"

definition bidx :: "nat list \<Rightarrow> nat list \<Rightarrow> nat list" where
  "bidx sh idx =
     map2 (\<lambda>n i. if n = 1 then 0 else i) sh (drop (length idx - length sh) idx)"

subsection \<open>Operations of the tensor library\<close>

definition bindE :: "error + 'a \<Rightarrow> ('a \<Rightarrow> error + 'b) \<Rightarrow> error + 'b" where
  "bindE m f = (case m of Inl e \<Rightarrow> Inl e | Inr x \<Rightarrow> f x)"

text \<open>\<^verbatim>\<open>t.size(d)\<close> for \<open>d \<ge> 0\<close>.\<close>

definition size_dim :: "tensor \<Rightarrow> nat \<Rightarrow> error + nat" where
  "size_dim t d = (if d < length (shape t) then Inr (shape t ! d) else Inl IndexError)"

text \<open>
  \<^verbatim>\<open>t.view(*sh)\<close> of a contiguous tensor: the element count must match; the row-major
  data is reinterpreted. \<open>view_infer\<close> is \<^verbatim>\<open>t.view(*sh, -1)\<close>: the last size is
  inferred, which the library refuses when the given sizes multiply to 0 or do not
  divide the element count.
\<close>

definition view :: "tensor \<Rightarrow> nat list \<Rightarrow> error + tensor" where
  "view t sh = (if prod_list sh = numel t then Inr (t\<lparr>shape := sh\<rparr>) else Inl RuntimeError)"

definition view_infer :: "tensor \<Rightarrow> nat list \<Rightarrow> error + tensor" where
  "view_infer t sh =
     (let n = prod_list sh in
      if 0 < n \<and> numel t mod n = 0 then Inr (t\<lparr>shape := sh @ [numel t div n]\<rparr>)
      else Inl RuntimeError)"

text \<open>
  \<^verbatim>\<open>t.transpose(i, j)\<close>, materialised row-major (what \<^verbatim>\<open>.contiguous()\<close> yields): the
  element at an index of the result is the element of \<open>t\<close> at the index with positions
  \<open>i\<close> and \<open>j\<close> exchanged.
\<close>

definition swap_dims :: "nat \<Rightarrow> nat \<Rightarrow> nat list \<Rightarrow> nat list" where
  "swap_dims i j xs = xs[i := xs ! j, j := xs ! i]"

definition transpose_t :: "tensor \<Rightarrow> nat \<Rightarrow> nat \<Rightarrow> error + tensor" where
  "transpose_t t i j =
     (if i < length (shape t) \<and> j < length (shape t)
      then Inr (tab (swap_dims i j (shape t)) (\<lambda>idx. elem t (swap_dims i j idx)))
      else Inl IndexError)"

definition unsqueeze :: "tensor \<Rightarrow> nat \<Rightarrow> error + tensor" where
  "unsqueeze t d =
     (if d \<le> length (shape t)
      then Inr (t\<lparr>shape := take d (shape t) @ [1] @ drop d (shape t)\<rparr>)
      else Inl IndexError)"

definition div_scalar :: "tensor \<Rightarrow> real \<Rightarrow> tensor" where
  "div_scalar t c = t\<lparr>data := map (\<lambda>x. x / c) (data t)\<rparr>"

text \<open>\<^verbatim>\<open>t == c\<close>: a boolean tensor, with True as 1 and False as 0.\<close>

definition eq_scalar :: "tensor \<Rightarrow> real \<Rightarrow> tensor" where
  "eq_scalar t c = t\<lparr>data := map (\<lambda>x. if x = c then 1 else 0) (data t)\<rparr>"

text \<open>
  \<^verbatim>\<open>torch.matmul(a, b)\<close>: a 1-dimensional first (second) operand is a row (column)
  whose added dimension is removed from the result; the leading dimensions are
  broadcast; the contracted sizes must agree.
\<close>

definition matmul :: "tensor \<Rightarrow> tensor \<Rightarrow> error + tensor" where
  "matmul a b =
     (if shape a = [] \<or> shape b = [] then Inl RuntimeError
      else
        let sa = (if length (shape a) = 1 then 1 # shape a else shape a);
            sb = (if length (shape b) = 1 then shape b @ [1] else shape b);
            ba = butlast (butlast sa);
            bb = butlast (butlast sb);
            m = last (butlast sa);
            n = last sb
        in if last sa \<noteq> last (butlast sb) then Inl RuntimeError
           else case broadcast_shapes ba bb of
             None \<Rightarrow> Inl RuntimeError
           | Some bs \<Rightarrow>
               Inr ((tab (bs @ [m, n])
                      (\<lambda>idx. sum_upto (last sa)
                         (\<lambda>d. elem (a\<lparr>shape := sa\<rparr>)
                                 (bidx ba (take (length bs) idx) @ [idx ! length bs, d])
                             * elem (b\<lparr>shape := sb\<rparr>)
                                 (bidx bb (take (length bs) idx) @ [d, idx ! Suc (length bs)]))))
                    \<lparr>shape := bs @ (if length (shape a) = 1 then [] else [m])
                                 @ (if length (shape b) = 1 then [] else [n])\<rparr>))"

text \<open>
  \<^verbatim>\<open>t.masked_fill(m, v)\<close>, out of place: \<open>t\<close> and the boolean mask \<open>m\<close> are broadcast
  against each other; where the mask holds, the result is \<open>v\<close>.
\<close>

definition masked_fill :: "tensor \<Rightarrow> tensor \<Rightarrow> real \<Rightarrow> error + tensor" where
  "masked_fill t m v =
     (case broadcast_shapes (shape t) (shape m) of
        None \<Rightarrow> Inl RuntimeError
      | Some sh \<Rightarrow>
          Inr (tab sh (\<lambda>idx. if elem m (bidx (shape m) idx) \<noteq> 0 then v
                             else elem t (bidx (shape t) idx))))"

text \<open>\<^verbatim>\<open>F.softmax(t, dim=-1)\<close>; a 0-dimensional tensor is treated as one row of one element.\<close>

definition softmax :: "tensor \<Rightarrow> tensor" where
  "softmax t =
     (let sh = (if shape t = [] then [1] else shape t); t1 = t\<lparr>shape := sh\<rparr> in
      (tab sh (\<lambda>idx. exp (elem t1 idx)
                 / sum_upto (last sh) (\<lambda>j. exp (elem t1 (butlast idx @ [j])))))
      \<lparr>shape := shape t\<rparr>)"

text \<open>\<^verbatim>\<open>a + b\<close> with broadcasting, and the check of the in-place \<^verbatim>\<open>a += b\<close>, whose result
  must have the shape of \<open>a\<close>.\<close>

definition add :: "tensor \<Rightarrow> tensor \<Rightarrow> error + tensor" where
  "add a b =
     (case broadcast_shapes (shape a) (shape b) of
        None \<Rightarrow> Inl RuntimeError
      | Some sh \<Rightarrow>
          Inr (tab sh (\<lambda>idx. elem a (bidx (shape a) idx) + elem b (bidx (shape b) idx))))"

definition add_inplace :: "tensor \<Rightarrow> tensor \<Rightarrow> error + tensor" where
  "add_inplace a b =
     (if broadcast_shapes (shape a) (shape b) = Some (shape a) then add a b
      else Inl RuntimeError)"

definition relu :: "tensor \<Rightarrow> tensor" where
  "relu t = t\<lparr>data := map (max 0) (data t)\<rparr>"

text \<open>\<^verbatim>\<open>t[:, :n]\<close> of a tensor with at least two dimensions.\<close>

definition slice_dim1 :: "tensor \<Rightarrow> nat \<Rightarrow> error + tensor" where
  "slice_dim1 t n =
     (if length (shape t) < 2 then Inl IndexError
      else Inr (tab ((shape t)[1 := min n (shape t ! 1)]) (elem t)))"

section \<open>Tensor objects, in-place updates and randomness\<close>

text \<open>
  Python variables hold references to tensor objects, and the module updates tensors
  in place (\<^verbatim>\<open>v += residual\<close>). The state is therefore explicit: a heap of tensor
  objects addressed by their index, and the source of randomness that dropout draws
  from (\<open>noise s c k\<close> tells whether the \<open>c\<close>-th call of dropout keeps element \<open>k\<close>).
  A computation returns an error or a value, and the state it leaves.

  An operation of the library that returns a tensor allocates a new object. A view
  (\<^verbatim>\<open>view\<close>, \<^verbatim>\<open>transpose\<close>, \<^verbatim>\<open>unsqueeze\<close>) shares its storage with its base in the library;
  the module never writes to a view or to the base of one, so a view is modelled as a
  new object as well. \<open>DanglingRef\<close> is the model's answer to an address that was never
  allocated, which no Python program can hold.
\<close>

type_synonym addr = nat

record state =
  heap :: "tensor list"
  rng :: nat
  noise :: "nat \<Rightarrow> nat \<Rightarrow> bool"

type_synonym 'a st = "state \<Rightarrow> (error + 'a) \<times> state"

definition return :: "'a \<Rightarrow> 'a st" where
  "return x = (\<lambda>s. (Inr x, s))"

definition raise :: "error \<Rightarrow> 'a st" where
  "raise e = (\<lambda>s. (Inl e, s))"

definition lift :: "error + 'a \<Rightarrow> 'a st" where
  "lift r = (\<lambda>s. (r, s))"

definition bnd :: "'a st \<Rightarrow> ('a \<Rightarrow> 'b st) \<Rightarrow> 'b st" where
  "bnd m f = (\<lambda>s. case m s of (Inl e, s') \<Rightarrow> (Inl e, s') | (Inr x, s') \<Rightarrow> f x s')"

definition DanglingRef :: error where
  "DanglingRef = RuntimeError"

definition load :: "addr \<Rightarrow> tensor st" where
  "load a = (\<lambda>s. if a < length (heap s) then (Inr (heap s ! a), s) else (Inl DanglingRef, s))"

definition alloc :: "tensor \<Rightarrow> addr st" where
  "alloc t = (\<lambda>s. (Inr (length (heap s)), s\<lparr>heap := heap s @ [t]\<rparr>))"

definition store_at :: "addr \<Rightarrow> tensor \<Rightarrow> unit st" where
  "store_at a t = (\<lambda>s. (Inr (), s\<lparr>heap := (heap s)[a := t]\<rparr>))"

text \<open>Library operations on references: read the operands, allocate the result.\<close>

definition op1 :: "(tensor \<Rightarrow> error + tensor) \<Rightarrow> addr \<Rightarrow> addr st" where
  "op1 f a = bnd (load a) (\<lambda>t. bnd (lift (f t)) alloc)"

definition op2 :: "(tensor \<Rightarrow> tensor \<Rightarrow> error + tensor) \<Rightarrow> addr \<Rightarrow> addr \<Rightarrow> addr st" where
  "op2 f a b = bnd (load a) (\<lambda>ta. bnd (load b) (\<lambda>tb. bnd (lift (f ta tb)) alloc))"

definition size_st :: "addr \<Rightarrow> nat \<Rightarrow> nat st" where
  "size_st a d = bnd (load a) (\<lambda>t. lift (size_dim t d))"

text \<open>\<^verbatim>\<open>a += b\<close>: the object at \<open>a\<close> is overwritten; no object is allocated.\<close>

definition iadd :: "addr \<Rightarrow> addr \<Rightarrow> addr st" where
  "iadd a b =
     bnd (load a) (\<lambda>ta. bnd (load b) (\<lambda>tb. bnd (lift (add_inplace ta tb)) (\<lambda>t.
     bnd (store_at a t) (\<lambda>_. return a))))"

section \<open>Library modules: Linear, LayerNorm, Dropout\<close>

text \<open>
  Learned parameters are values of the module records: the forward code reads them
  only through the library. Their initial values come from the library's random
  initialisation and later from training, so constructors take them from a parameter
  source \<open>\<theta>\<close>, by name and index.
\<close>

type_synonym params = "string \<Rightarrow> nat \<Rightarrow> nat \<Rightarrow> real"

definition sub :: "string \<Rightarrow> params \<Rightarrow> params" where
  "sub name \<theta> = (\<lambda>n. \<theta> (name @ ''.'' @ n))"

record Linear =
  in_features :: nat
  out_features :: nat
  weight :: tensor
  bias :: "tensor option"

definition Linear_init :: "nat \<Rightarrow> nat \<Rightarrow> bool \<Rightarrow> params \<Rightarrow> Linear" where
  "Linear_init n_in n_out with_bias \<theta> =
     \<lparr>in_features = n_in, out_features = n_out,
      weight = tab [n_out, n_in] (\<lambda>idx. \<theta> ''weight'' (idx ! 0) (idx ! 1)),
      bias = (if with_bias then Some (tab [n_out] (\<lambda>idx. \<theta> ''bias'' (idx ! 0) 0)) else None)\<rparr>"

text \<open>\<^verbatim>\<open>F.linear\<close>: applied to the last axis, which must have \<open>in_features\<close> entries.\<close>

definition linear :: "Linear \<Rightarrow> tensor \<Rightarrow> error + tensor" where
  "linear L x =
     (if shape x = [] \<or> last (shape x) \<noteq> in_features L then Inl RuntimeError
      else Inr (tab (butlast (shape x) @ [out_features L])
             (\<lambda>idx. sum_upto (in_features L)
                       (\<lambda>i. elem x (butlast idx @ [i]) * elem (weight L) [last idx, i])
                    + (case bias L of None \<Rightarrow> 0 | Some b \<Rightarrow> elem b [last idx]))))"

definition Linear_forward :: "Linear \<Rightarrow> addr \<Rightarrow> addr st" where
  "Linear_forward L x = op1 (linear L) x"

record LayerNorm =
  normalized_shape :: nat
  eps :: real
  ln_weight :: tensor
  ln_bias :: tensor

definition LayerNorm_init :: "nat \<Rightarrow> real \<Rightarrow> params \<Rightarrow> LayerNorm" where
  "LayerNorm_init d e \<theta> =
     \<lparr>normalized_shape = d, eps = e,
      ln_weight = tab [d] (\<lambda>idx. \<theta> ''weight'' (idx ! 0) 0),
      ln_bias = tab [d] (\<lambda>idx. \<theta> ''bias'' (idx ! 0) 0)\<rparr>"

definition row_mean :: "tensor \<Rightarrow> nat list \<Rightarrow> real" where
  "row_mean x idx =
     sum_upto (last (shape x)) (\<lambda>j. elem x (butlast idx @ [j])) / real (last (shape x))"

definition row_var :: "tensor \<Rightarrow> nat list \<Rightarrow> real" where
  "row_var x idx =
     sum_upto (last (shape x)) (\<lambda>j. (elem x (butlast idx @ [j]) - row_mean x idx)\<^sup>2)
       / real (last (shape x))"

text \<open>\<^verbatim>\<open>F.layer_norm\<close> over the last axis: mean and (biased) variance of each row.\<close>

definition layer_norm :: "LayerNorm \<Rightarrow> tensor \<Rightarrow> error + tensor" where
  "layer_norm N x =
     (if shape x = [] \<or> last (shape x) \<noteq> normalized_shape N then Inl RuntimeError
      else Inr (tab (shape x)
             (\<lambda>idx. (elem x idx - row_mean x idx) / sqrt (row_var x idx + eps N)
                      * elem (ln_weight N) [last idx] + elem (ln_bias N) [last idx])))"

definition LayerNorm_forward :: "LayerNorm \<Rightarrow> addr \<Rightarrow> addr st" where
  "LayerNorm_forward N x = op1 (layer_norm N) x"

record Dropout =
  dropout_p :: real
  training :: bool

definition Dropout_init :: "real \<Rightarrow> error + Dropout" where
  "Dropout_init p =
     (if p < 0 \<or> 1 < p then Inl ValueError else Inr \<lparr>dropout_p = p, training = True\<rparr>)"

text \<open>
  The library returns its input, the same object, when the module is in evaluation
  mode, when \<open>p = 0\<close> or when the tensor is empty. Otherwise it draws a keep mask and
  returns a new tensor: zero where an element is dropped, the element scaled by
  \<open>1 / (1 - p)\<close> where it is kept, and all zeros when \<open>p = 1\<close>.
\<close>

definition dropout_active :: "Dropout \<Rightarrow> tensor \<Rightarrow> bool" where
  "dropout_active D t = (training D \<and> dropout_p D \<noteq> 0 \<and> numel t \<noteq> 0)"

definition dropout_noise :: "real \<Rightarrow> (nat \<Rightarrow> bool) \<Rightarrow> tensor \<Rightarrow> tensor" where
  "dropout_noise p keep t =
     t\<lparr>data := map (\<lambda>k. if p \<noteq> 1 \<and> keep k then data t ! k / (1 - p) else 0)
                   [0..<length (data t)]\<rparr>"

text \<open>
  The state counts the calls of dropout: the \<open>c\<close>-th call of a run, when it draws at
  all, draws the mask \<open>noise s c\<close>.
\<close>

definition next_draw :: "(nat \<Rightarrow> bool) st" where
  "next_draw = (\<lambda>s. (Inr (noise s (rng s)), s\<lparr>rng := Suc (rng s)\<rparr>))"

definition Dropout_forward :: "Dropout \<Rightarrow> addr \<Rightarrow> addr st" where
  "Dropout_forward D x =
     bnd (load x) (\<lambda>t.
     bnd next_draw (\<lambda>keep.
       if dropout_active D t then alloc (dropout_noise (dropout_p D) keep t)
       else return x))"

section \<open>Calls with keyword arguments\<close>

text \<open>
  A module is called as \<^verbatim>\<open>module(*args, **kwargs)\<close>, which passes the arguments on to
  \<^verbatim>\<open>forward\<close>. A Python value here is a tensor reference or \<^verbatim>\<open>None\<close>. \<open>bind_args\<close>
  binds the arguments of a call to the parameters of a function, each given with its
  default when it has one: a keyword that names no parameter, a parameter given twice,
  too many positional arguments and a parameter left without a value are TypeErrors.
\<close>

type_synonym pyval = "addr option"

definition bind_param ::
  "pyval list \<Rightarrow> (string \<times> pyval) list \<Rightarrow> nat \<Rightarrow> string \<times> pyval option \<Rightarrow> error + pyval" where
  "bind_param args kwargs i param =
     (if i < length args then Inr (args ! i)
      else case map_of kwargs (fst param) of
        Some v \<Rightarrow> Inr v
      | None \<Rightarrow> (case snd param of
           Some d \<Rightarrow> Inr d
         | None \<Rightarrow> Inl (TypeError (''missing required argument: '' @ fst param))))"

fun sequenceE :: "(error + 'a) list \<Rightarrow> error + 'a list" where
  "sequenceE [] = Inr []"
| "sequenceE (r # rs) = bindE r (\<lambda>x. bindE (sequenceE rs) (\<lambda>xs. Inr (x # xs)))"

definition bind_args ::
  "(string \<times> pyval option) list \<Rightarrow> pyval list \<Rightarrow> (string \<times> pyval) list \<Rightarrow> error + pyval list" where
  "bind_args params args kwargs =
     (case find (\<lambda>kw. fst kw \<notin> set (map fst params)) kwargs of
        Some kw \<Rightarrow> Inl (TypeError (''unexpected keyword argument: '' @ fst kw))
      | None \<Rightarrow>
     (case find (\<lambda>kw. fst kw \<in> set (take (length args) (map fst params))) kwargs of
        Some kw \<Rightarrow> Inl (TypeError (''multiple values for argument: '' @ fst kw))
      | None \<Rightarrow>
     (if length params < length args then Inl (TypeError ''too many positional arguments'')
      else sequenceE (map (\<lambda>i. bind_param args kwargs i (params ! i)) [0..<length params]))))"

section \<open>ScaledDotProductAttention\<close>

record ScaledDotProductAttention =
  temperature :: real
  sdpa_dropout :: Dropout

definition ScaledDotProductAttention_init :: "real \<Rightarrow> real \<Rightarrow> error + ScaledDotProductAttention" where
  "ScaledDotProductAttention_init temp attn_dropout =
     bindE (Dropout_init attn_dropout) (\<lambda>d. Inr \<lparr>temperature = temp, sdpa_dropout = d\<rparr>)"

definition ScaledDotProductAttention_forward ::
  "ScaledDotProductAttention \<Rightarrow> addr \<Rightarrow> addr \<Rightarrow> addr \<Rightarrow> addr option \<Rightarrow> (addr \<times> addr) st" where
  "ScaledDotProductAttention_forward A q k v attn_mask =
     bnd (op1 (\<lambda>t. Inr (div_scalar t (temperature A))) q) (\<lambda>q_scaled.
     bnd (op1 (\<lambda>t. transpose_t t 2 3) k) (\<lambda>k_t.
     bnd (op2 matmul q_scaled k_t) (\<lambda>attn.
     bnd (case attn_mask of
            None \<Rightarrow> return attn
          | Some m \<Rightarrow>
              bnd (op1 (\<lambda>t. Inr (eq_scalar t 1)) m) (\<lambda>is_masked.
              op2 (\<lambda>t b. masked_fill t b (- 1000000000)) attn is_masked)) (\<lambda>attn.
     bnd (op1 (\<lambda>t. Inr (softmax t)) attn) (\<lambda>weights.
     bnd (Dropout_forward (sdpa_dropout A) weights) (\<lambda>attn.
     bnd (op2 matmul attn v) (\<lambda>output.
     return (output, attn))))))))"

section \<open>MultiHeadAttention\<close>

record MultiHeadAttention =
  n_head :: nat
  d_k :: nat
  d_v :: nat
  w_qs :: Linear
  w_ks :: Linear
  w_vs :: Linear
  attention :: ScaledDotProductAttention
  fc :: Linear
  mha_dropout :: Dropout
  mha_layer_norm :: LayerNorm

definition MultiHeadAttention_init ::
  "nat \<Rightarrow> nat \<Rightarrow> nat \<Rightarrow> nat \<Rightarrow> real \<Rightarrow> real \<Rightarrow> params \<Rightarrow> error + MultiHeadAttention" where
  "MultiHeadAttention_init n_heads d_model dk dv dropout attn_dropout \<theta> =
     bindE (ScaledDotProductAttention_init (sqrt (real dk)) attn_dropout) (\<lambda>att.
     bindE (Dropout_init dropout) (\<lambda>drop.
     Inr \<lparr>n_head = n_heads, d_k = dk, d_v = dv,
          w_qs = Linear_init d_model (n_heads * dk) False (sub ''w_qs'' \<theta>),
          w_ks = Linear_init d_model (n_heads * dk) False (sub ''w_ks'' \<theta>),
          w_vs = Linear_init d_model (n_heads * dv) False (sub ''w_vs'' \<theta>),
          attention = att,
          fc = Linear_init (n_heads * dv) d_model False (sub ''fc'' \<theta>),
          mha_dropout = drop,
          mha_layer_norm = LayerNorm_init d_model (1 / 1000000) (sub ''layer_norm'' \<theta>)\<rparr>))"

definition MultiHeadAttention_forward ::
  "MultiHeadAttention \<Rightarrow> addr \<Rightarrow> addr \<Rightarrow> addr \<Rightarrow> addr option \<Rightarrow> (addr \<times> addr) st" where
  "MultiHeadAttention_forward M q k v attn_mask =
     bnd (size_st q 0) (\<lambda>batch_size.
     bnd (size_st q 1) (\<lambda>n_steps.
     let residual = q in
     bnd (Linear_forward (w_qs M) q) (\<lambda>q.
     bnd (op1 (\<lambda>t. view t [batch_size, n_steps, n_head M, d_k M]) q) (\<lambda>q.
     bnd (Linear_forward (w_ks M) k) (\<lambda>k.
     bnd (op1 (\<lambda>t. view t [batch_size, n_steps, n_head M, d_k M]) k) (\<lambda>k.
     bnd (Linear_forward (w_vs M) v) (\<lambda>v.
     bnd (op1 (\<lambda>t. view t [batch_size, n_steps, n_head M, d_v M]) v) (\<lambda>v.
     bnd (op1 (\<lambda>t. transpose_t t 1 2) q) (\<lambda>q.
     bnd (op1 (\<lambda>t. transpose_t t 1 2) k) (\<lambda>k.
     bnd (op1 (\<lambda>t. transpose_t t 1 2) v) (\<lambda>v.
     bnd (case attn_mask of
            None \<Rightarrow> return None
          | Some m \<Rightarrow> bnd (op1 (\<lambda>t. unsqueeze t 1) m) (\<lambda>m. return (Some m))) (\<lambda>attn_mask.
     bnd (ScaledDotProductAttention_forward (attention M) q k v attn_mask) (\<lambda>(v, attn_weights).
     bnd (op1 (\<lambda>t. transpose_t t 1 2) v) (\<lambda>v.
     bnd (op1 (\<lambda>t. view_infer t [batch_size, n_steps]) v) (\<lambda>v.
     bnd (Linear_forward (fc M) v) (\<lambda>v.
     bnd (Dropout_forward (mha_dropout M) v) (\<lambda>v.
     bnd (iadd v residual) (\<lambda>v.
     bnd (LayerNorm_forward (mha_layer_norm M) v) (\<lambda>v.
     return (v, attn_weights))))))))))))))))))))"

text \<open>
  \<^verbatim>\<open>MultiHeadAttention.forward(self, q, k, v, attn_mask)\<close> has four parameters and no
  defaults. The callers in this file pass tensors for \<open>q\<close>, \<open>k\<close> and \<open>v\<close>; \<^verbatim>\<open>None\<close> in
  their place fails in the first library call that receives it.
\<close>

definition MultiHeadAttention_call ::
  "MultiHeadAttention \<Rightarrow> pyval list \<Rightarrow> (string \<times> pyval) list \<Rightarrow> (addr \<times> addr) st" where
  "MultiHeadAttention_call M args kwargs =
     bnd (lift (bind_args [(''q'', None), (''k'', None), (''v'', None), (''attn_mask'', None)]
                  args kwargs)) (\<lambda>vals.
     case vals of
       [Some q, Some k, Some v, attn_mask] \<Rightarrow> MultiHeadAttention_forward M q k v attn_mask
     | _ \<Rightarrow> raise (TypeError ''NoneType''))"

section \<open>PositionWiseFeedForward\<close>

record PositionWiseFeedForward =
  linear_1 :: Linear
  linear_2 :: Linear
  ffn_layer_norm :: LayerNorm
  ffn_dropout :: Dropout

definition PositionWiseFeedForward_init ::
  "nat \<Rightarrow> nat \<Rightarrow> real \<Rightarrow> params \<Rightarrow> error + PositionWiseFeedForward" where
  "PositionWiseFeedForward_init d_in d_hid dropout \<theta> =
     bindE (Dropout_init dropout) (\<lambda>drop.
     Inr \<lparr>linear_1 = Linear_init d_in d_hid True (sub ''linear_1'' \<theta>),
          linear_2 = Linear_init d_hid d_in True (sub ''linear_2'' \<theta>),
          ffn_layer_norm = LayerNorm_init d_in (1 / 1000000) (sub ''layer_norm'' \<theta>),
          ffn_dropout = drop\<rparr>)"

definition PositionWiseFeedForward_forward :: "PositionWiseFeedForward \<Rightarrow> addr \<Rightarrow> addr st" where
  "PositionWiseFeedForward_forward F x =
     (let residual = x in
      bnd (Linear_forward (linear_1 F) x) (\<lambda>x.
      bnd (op1 (\<lambda>t. Inr (relu t)) x) (\<lambda>x.
      bnd (Linear_forward (linear_2 F) x) (\<lambda>x.
      bnd (Dropout_forward (ffn_dropout F) x) (\<lambda>x.
      bnd (iadd x residual) (\<lambda>x.
      bnd (LayerNorm_forward (ffn_layer_norm F) x) (\<lambda>x.
      return x)))))))"

section \<open>EncoderLayer and DecoderLayer\<close>

record EncoderLayer =
  enc_slf_attn :: MultiHeadAttention
  enc_pos_ffn :: PositionWiseFeedForward

definition EncoderLayer_init ::
  "nat \<Rightarrow> nat \<Rightarrow> nat \<Rightarrow> nat \<Rightarrow> nat \<Rightarrow> real \<Rightarrow> real \<Rightarrow> params \<Rightarrow> error + EncoderLayer" where
  "EncoderLayer_init d_model d_inner n_heads dk dv dropout attn_dropout \<theta> =
     bindE (MultiHeadAttention_init n_heads d_model dk dv dropout attn_dropout (sub ''slf_attn'' \<theta>))
       (\<lambda>att.
     bindE (PositionWiseFeedForward_init d_model d_inner dropout (sub ''pos_ffn'' \<theta>)) (\<lambda>ffn.
     Inr \<lparr>enc_slf_attn = att, enc_pos_ffn = ffn\<rparr>))"

definition EncoderLayer_forward :: "EncoderLayer \<Rightarrow> addr \<Rightarrow> addr option \<Rightarrow> (addr \<times> addr) st" where
  "EncoderLayer_forward L enc_input src_mask =
     bnd (MultiHeadAttention_call (enc_slf_attn L)
            [Some enc_input, Some enc_input, Some enc_input] [(''attn_mask'', src_mask)])
       (\<lambda>(enc_output, attn_weights).
     bnd (PositionWiseFeedForward_forward (enc_pos_ffn L) enc_output) (\<lambda>enc_output.
     return (enc_output, attn_weights)))"

record DecoderLayer =
  dec_slf_attn :: MultiHeadAttention
  dec_enc_attn :: MultiHeadAttention
  dec_pos_ffn :: PositionWiseFeedForward

definition DecoderLayer_init ::
  "nat \<Rightarrow> nat \<Rightarrow> nat \<Rightarrow> nat \<Rightarrow> nat \<Rightarrow> real \<Rightarrow> real \<Rightarrow> params \<Rightarrow> error + DecoderLayer" where
  "DecoderLayer_init d_model d_inner n_heads dk dv dropout attn_dropout \<theta> =
     bindE (MultiHeadAttention_init n_heads d_model dk dv dropout attn_dropout (sub ''slf_attn'' \<theta>))
       (\<lambda>slf.
     bindE (MultiHeadAttention_init n_heads d_model dk dv dropout attn_dropout (sub ''enc_attn'' \<theta>))
       (\<lambda>enc.
     bindE (PositionWiseFeedForward_init d_model d_inner dropout (sub ''pos_ffn'' \<theta>)) (\<lambda>ffn.
     Inr \<lparr>dec_slf_attn = slf, dec_enc_attn = enc, dec_pos_ffn = ffn\<rparr>)))"

definition DecoderLayer_forward ::
  "DecoderLayer \<Rightarrow> addr \<Rightarrow> addr \<Rightarrow> addr option \<Rightarrow> addr option \<Rightarrow> (addr \<times> addr \<times> addr) st" where
  "DecoderLayer_forward L dec_input enc_output slf_attn_mask dec_enc_attn_mask =
     bnd (MultiHeadAttention_call (dec_slf_attn L)
            [Some dec_input, Some dec_input, Some dec_input] [(''mask'', slf_attn_mask)])
       (\<lambda>(dec_output, dec_slf_attn).
     bnd (MultiHeadAttention_call (dec_enc_attn L)
            [Some dec_output, Some enc_output, Some enc_output] [(''mask'', dec_enc_attn_mask)])
       (\<lambda>(dec_output, dec_enc_attn).
     bnd (PositionWiseFeedForward_forward (dec_pos_ffn L) dec_output) (\<lambda>dec_output.
     return (dec_output, dec_slf_attn, dec_enc_attn))))"

text \<open>
  \<^verbatim>\<open>DecoderLayer.forward(self, dec_input, enc_output, slf_attn_mask=None,
  dec_enc_attn_mask=None)\<close>, as the decoder stack calls it.
\<close>

definition DecoderLayer_call ::
  "DecoderLayer \<Rightarrow> pyval list \<Rightarrow> (string \<times> pyval) list \<Rightarrow> (addr \<times> addr \<times> addr) st" where
  "DecoderLayer_call L args kwargs =
     bnd (lift (bind_args [(''dec_input'', None), (''enc_output'', None),
                           (''slf_attn_mask'', Some None), (''dec_enc_attn_mask'', Some None)]
                  args kwargs)) (\<lambda>vals.
     case vals of
       [Some dec_input, Some enc_output, slf_attn_mask, dec_enc_attn_mask] \<Rightarrow>
         DecoderLayer_forward L dec_input enc_output slf_attn_mask dec_enc_attn_mask
     | _ \<Rightarrow> raise (TypeError ''NoneType''))"

section \<open>PositionalEncoding\<close>

text \<open>
  The table is a buffer of the module: a tensor object on the heap, registered under
  the name \<^verbatim>\<open>pos_table\<close>, and not a parameter. The table is computed with numpy: the
  array of angles, then the sine written over the even columns and the cosine over the
  odd ones. For \<open>n_position = 0\<close> the array of angles has one dimension only, and
  indexing its columns raises.
\<close>

record PositionalEncoding =
  pe_buffers :: "(string \<times> addr) list"
  pe_parameters :: "(string \<times> addr) list"

definition get_position_angle_vec :: "nat \<Rightarrow> nat \<Rightarrow> nat \<Rightarrow> real" where
  "get_position_angle_vec d_hid position hid_j =
     real position / (10000 powr (real (2 * (hid_j div 2)) / real d_hid))"

definition sin_even_columns :: "tensor \<Rightarrow> tensor" where
  "sin_even_columns t = tab (shape t) (\<lambda>idx. if even (idx ! 1) then sin (elem t idx) else elem t idx)"

definition cos_odd_columns :: "tensor \<Rightarrow> tensor" where
  "cos_odd_columns t = tab (shape t) (\<lambda>idx. if odd (idx ! 1) then cos (elem t idx) else elem t idx)"

definition get_sinusoid_encoding_table :: "nat \<Rightarrow> nat \<Rightarrow> error + tensor" where
  "get_sinusoid_encoding_table n_position d_hid =
     (if n_position = 0 then Inl IndexError
      else
        let sinusoid_table =
              tab [n_position, d_hid] (\<lambda>idx. get_position_angle_vec d_hid (idx ! 0) (idx ! 1));
            sinusoid_table = sin_even_columns sinusoid_table;
            sinusoid_table = cos_odd_columns sinusoid_table
        in unsqueeze sinusoid_table 0)"

definition PositionalEncoding_init :: "nat \<Rightarrow> nat \<Rightarrow> PositionalEncoding st" where
  "PositionalEncoding_init d_hid n_position =
     bnd (lift (get_sinusoid_encoding_table n_position d_hid)) (\<lambda>table.
     bnd (alloc table) (\<lambda>a.
     return \<lparr>pe_buffers = [(''pos_table'', a)], pe_parameters = []\<rparr>))"

definition PositionalEncoding_getattr :: "PositionalEncoding \<Rightarrow> string \<Rightarrow> error + addr" where
  "PositionalEncoding_getattr P name =
     (case map_of (pe_parameters P @ pe_buffers P) name of
        Some a \<Rightarrow> Inr a
      | None \<Rightarrow> Inl (AttributeError name))"

definition PositionalEncoding_forward :: "PositionalEncoding \<Rightarrow> addr \<Rightarrow> addr st" where
  "PositionalEncoding_forward P x =
     bnd (lift (PositionalEncoding_getattr P ''pos_table'')) (\<lambda>pos_table.
     bnd (size_st x 1) (\<lambda>steps.
     bnd (op1 (\<lambda>t. slice_dim1 t steps) pos_table) (\<lambda>sliced.
     bnd (op1 Inr sliced) (\<lambda>cloned.
     op2 add x cloned))))"

section \<open>Encoder and Decoder\<close>

text \<open>
  The layers of a stack are built by a comprehension over \<^verbatim>\<open>range(n_layers)\<close>; the
  parameters of layer \<open>i\<close> come from \<open>\<theta>s i\<close>.
\<close>

record Encoder =
  enc_embedding :: Linear
  enc_dropout :: Dropout
  enc_position_enc :: PositionalEncoding
  enc_layer_stack :: "EncoderLayer list"

definition Encoder_init ::
  "nat \<Rightarrow> nat \<Rightarrow> nat \<Rightarrow> nat \<Rightarrow> nat \<Rightarrow> nat \<Rightarrow> nat \<Rightarrow> nat \<Rightarrow> real \<Rightarrow> real \<Rightarrow> params \<Rightarrow> (nat \<Rightarrow> params)
     \<Rightarrow> Encoder st" where
  "Encoder_init n_layers n_steps n_features d_model d_inner n_heads dk dv dropout attn_dropout \<theta> \<theta>s =
     bnd (lift (Dropout_init dropout)) (\<lambda>drop.
     bnd (PositionalEncoding_init d_model n_steps) (\<lambda>pe.
     bnd (lift (sequenceE (map (\<lambda>i. EncoderLayer_init d_model d_inner n_heads dk dv dropout
                                      attn_dropout (\<theta>s i)) [0..<n_layers]))) (\<lambda>layers.
     return \<lparr>enc_embedding = Linear_init n_features d_model True (sub ''embedding'' \<theta>),
             enc_dropout = drop, enc_position_enc = pe, enc_layer_stack = layers\<rparr>)))"

datatype forward_result =
    Hidden addr
  | HiddenAttn addr "addr list"
  | HiddenAttn2 addr "addr list" "addr list"

fun Encoder_loop ::
  "EncoderLayer list \<Rightarrow> addr option \<Rightarrow> addr \<Rightarrow> addr list \<Rightarrow> (addr \<times> addr list) st" where
  "Encoder_loop [] src_mask enc_output attn_weights_collector =
     return (enc_output, attn_weights_collector)"
| "Encoder_loop (layer # rest) src_mask enc_output attn_weights_collector =
     bnd (EncoderLayer_forward layer enc_output src_mask) (\<lambda>(enc_output, attn_weights).
     Encoder_loop rest src_mask enc_output (attn_weights_collector @ [attn_weights]))"

definition Encoder_forward :: "Encoder \<Rightarrow> addr \<Rightarrow> addr option \<Rightarrow> bool \<Rightarrow> forward_result st" where
  "Encoder_forward E x src_mask return_attn_weights =
     bnd (Linear_forward (enc_embedding E) x) (\<lambda>x.
     bnd (PositionalEncoding_forward (enc_position_enc E) x) (\<lambda>pe.
     bnd (Dropout_forward (enc_dropout E) pe) (\<lambda>enc_output.
     bnd (Encoder_loop (enc_layer_stack E) src_mask enc_output [])
       (\<lambda>(enc_output, attn_weights_collector).
     if return_attn_weights then return (HiddenAttn enc_output attn_weights_collector)
     else return (Hidden enc_output)))))"

record Decoder =
  dec_embedding :: Linear
  dec_dropout :: Dropout
  dec_position_enc :: PositionalEncoding
  dec_layer_stack :: "DecoderLayer list"

definition Decoder_init ::
  "nat \<Rightarrow> nat \<Rightarrow> nat \<Rightarrow> nat \<Rightarrow> nat \<Rightarrow> nat \<Rightarrow> nat \<Rightarrow> nat \<Rightarrow> real \<Rightarrow> real \<Rightarrow> params \<Rightarrow> (nat \<Rightarrow> params)
     \<Rightarrow> Decoder st" where
  "Decoder_init n_layers n_steps n_features d_model d_inner n_heads dk dv dropout attn_dropout \<theta> \<theta>s =
     bnd (lift (Dropout_init dropout)) (\<lambda>drop.
     bnd (PositionalEncoding_init d_model n_steps) (\<lambda>pe.
     bnd (lift (sequenceE (map (\<lambda>i. DecoderLayer_init d_model d_inner n_heads dk dv dropout
                                      attn_dropout (\<theta>s i)) [0..<n_layers]))) (\<lambda>layers.
     return \<lparr>dec_embedding = Linear_init n_features d_model True (sub ''embedding'' \<theta>),
             dec_dropout = drop, dec_position_enc = pe, dec_layer_stack = layers\<rparr>)))"

text \<open>
  The attributes of a Decoder object are the submodules that \<^verbatim>\<open>__init__\<close> assigns;
  reading any other name that is not a method of the class raises AttributeError.
\<close>

datatype attribute =
    ALinear Linear
  | ADropout Dropout
  | APositionalEncoding PositionalEncoding
  | ADecoderLayers "DecoderLayer list"

definition Decoder_modules :: "Decoder \<Rightarrow> (string \<times> attribute) list" where
  "Decoder_modules D =
     [(''embedding'', ALinear (dec_embedding D)),
      (''dropout'', ADropout (dec_dropout D)),
      (''position_enc'', APositionalEncoding (dec_position_enc D)),
      (''dec_layer_stack'', ADecoderLayers (dec_layer_stack D))]"

definition Decoder_getattr :: "Decoder \<Rightarrow> string \<Rightarrow> error + attribute" where
  "Decoder_getattr D name =
     (case map_of (Decoder_modules D) name of
        Some a \<Rightarrow> Inr a
      | None \<Rightarrow> Inl (AttributeError name))"

fun Decoder_loop ::
  "DecoderLayer list \<Rightarrow> addr \<Rightarrow> addr option \<Rightarrow> addr option \<Rightarrow> addr \<Rightarrow> addr list \<Rightarrow> addr list
     \<Rightarrow> (addr \<times> addr list \<times> addr list) st" where
  "Decoder_loop [] enc_output trg_mask src_mask dec_output slf_collector enc_collector =
     return (dec_output, slf_collector, enc_collector)"
| "Decoder_loop (layer # rest) enc_output trg_mask src_mask dec_output slf_collector enc_collector =
     bnd (DecoderLayer_call layer [Some dec_output, Some enc_output]
            [(''slf_attn_mask'', trg_mask), (''dec_enc_attn_mask'', src_mask)])
       (\<lambda>(dec_output, dec_slf_attn, dec_enc_attn).
     Decoder_loop rest enc_output trg_mask src_mask dec_output
       (slf_collector @ [dec_slf_attn]) (enc_collector @ [dec_enc_attn]))"

definition Decoder_forward ::
  "Decoder \<Rightarrow> addr \<Rightarrow> addr \<Rightarrow> addr option \<Rightarrow> addr option \<Rightarrow> bool \<Rightarrow> forward_result st" where
  "Decoder_forward D trg_seq enc_output trg_mask src_mask return_attn_weights =
     bnd (Linear_forward (dec_embedding D) trg_seq) (\<lambda>trg_seq.
     bnd (PositionalEncoding_forward (dec_position_enc D) trg_seq) (\<lambda>pe.
     bnd (Dropout_forward (dec_dropout D) pe) (\<lambda>dec_output.
     bnd (lift (Decoder_getattr D ''layer_stack'')) (\<lambda>layer_stack.
     bnd (case layer_stack of
            ADecoderLayers layers \<Rightarrow>
              Decoder_loop layers enc_output trg_mask src_mask dec_output [] []
          | _ \<Rightarrow> raise (TypeError ''not iterable''))
       (\<lambda>(dec_output, dec_slf_attn_collector, dec_enc_attn_collector).
     if return_attn_weights
     then return (HiddenAttn2 dec_output dec_slf_attn_collector dec_enc_attn_collector)
     else return (Hidden dec_output))))))"

section \<open>Index arithmetic\<close>

lemma ravel_less: "list_all2 (<) idx sh \<Longrightarrow> ravel sh idx < prod_list sh"
proof (induction idx sh rule: list_all2_induct)
  case Nil
  then show ?case by simp
next
  case (Cons i js n ns)
  have "i * prod_list ns + ravel ns js < i * prod_list ns + prod_list ns"
    using Cons.IH by simp
  also have "\<dots> = Suc i * prod_list ns" by simp
  also have "\<dots> \<le> n * prod_list ns"
    using Cons.hyps(1) by (intro mult_le_mono1) simp
  finally show ?case by simp
qed

lemma unravel_ravel: "list_all2 (<) idx sh \<Longrightarrow> unravel sh (ravel sh idx) = idx"
proof (induction idx sh rule: list_all2_induct)
  case Nil
  then show ?case by simp
next
  case (Cons i js n ns)
  have r: "ravel ns js < prod_list ns"
    using Cons.hyps(2) by (rule ravel_less)
  then show ?case using Cons.IH by simp
qed

lemma unravel_valid: "k < prod_list sh \<Longrightarrow> list_all2 (<) (unravel sh k) sh"
proof (induction sh arbitrary: k)
  case Nil
  then show ?case by simp
next
  case (Cons n ns)
  have pos: "0 < prod_list ns"
    using Cons.prems by (cases "prod_list ns = 0") auto
  have "k div prod_list ns < n"
    using Cons.prems pos by (simp add: less_mult_imp_div_less)
  moreover have "k mod prod_list ns < prod_list ns"
    using pos by simp
  ultimately show ?case using Cons.IH by simp
qed

lemma ravel_unravel: "k < prod_list sh \<Longrightarrow> ravel sh (unravel sh k) = k"
proof (induction sh arbitrary: k)
  case Nil
  then show ?case by simp
next
  case (Cons n ns)
  have pos: "0 < prod_list ns"
    using Cons.prems by (cases "prod_list ns = 0") auto
  then show ?case using Cons.IH [of "k mod prod_list ns"] by simp
qed

lemma shape_tab [simp]: "shape (tab sh f) = sh"
  by (simp add: tab_def)

lemma wf_tab [simp]: "wf_tensor (tab sh f)"
  by (simp add: tab_def wf_tensor_def)

lemma numel_tab [simp]: "numel (tab sh f) = prod_list sh"
  by (simp add: numel_def)

lemma elem_tab: "valid_idx sh idx \<Longrightarrow> elem (tab sh f) idx = f idx"
  unfolding valid_idx_def elem_def tab_def
  using ravel_less [of idx sh] unravel_ravel [of idx sh] by simp

lemma sum_upto_sum: "sum_upto n f = (\<Sum>j<n. f j)"
  unfolding sum_upto_def
  by (simp add: interv_sum_list_conv_sum_set_nat atLeast0LessThan)

section \<open>Values computed and objects left unchanged\<close>

text \<open>
  What a forward pass computes is stated against pure functions on tensor values
  (\<open>FFN_value\<close>, \<open>sdpa_value\<close>, \<open>merged_heads\<close>, \<open>MHA_value\<close>): the composition of
  library operations that the specification describes, with no heap. What it leaves
  unchanged is stated by \<open>frame n s s'\<close>: the heap has only grown, and the first \<open>n\<close>
  objects of \<open>s\<close> hold in \<open>s'\<close> the values they held in \<open>s\<close>.

  \<open>run m s Q\<close> says that the outcome of \<open>m\<close> in state \<open>s\<close> satisfies \<open>Q\<close>. \<open>post1\<close> and
  \<open>post2\<close> are the outcomes of a computation that returns one or two tensors: the objects
  allocated before the call are unchanged; an error is the error of the pure function; a
  returned reference is a new object that holds the value of the pure function, and \<open>c\<close>
  calls of dropout were made.
\<close>

definition frame :: "nat \<Rightarrow> state \<Rightarrow> state \<Rightarrow> bool" where
  "frame n s s' =
     (length (heap s) \<le> length (heap s') \<and> (\<forall>a<n. heap s' ! a = heap s ! a) \<and> noise s' = noise s)"

definition dropout_value :: "Dropout \<Rightarrow> (nat \<Rightarrow> bool) \<Rightarrow> tensor \<Rightarrow> tensor" where
  "dropout_value D keep t = (if dropout_active D t then dropout_noise (dropout_p D) keep t else t)"

definition run :: "'a st \<Rightarrow> state \<Rightarrow> (error + 'a \<Rightarrow> state \<Rightarrow> bool) \<Rightarrow> bool" where
  "run m s Q = (case m s of (r, s') \<Rightarrow> Q r s')"

definition post1 :: "nat \<Rightarrow> state \<Rightarrow> error + tensor \<Rightarrow> error + addr \<Rightarrow> state \<Rightarrow> bool" where
  "post1 c s val r s' =
     (frame (length (heap s)) s s' \<and>
      (case r of
         Inl e \<Rightarrow> val = Inl e
       | Inr out \<Rightarrow>
           rng s' = rng s + c \<and> length (heap s) \<le> out \<and> out < length (heap s') \<and>
           val = Inr (heap s' ! out)))"

definition post2 ::
  "nat \<Rightarrow> state \<Rightarrow> error + tensor \<times> tensor \<Rightarrow> error + addr \<times> addr \<Rightarrow> state \<Rightarrow> bool" where
  "post2 c s val r s' =
     (frame (length (heap s)) s s' \<and>
      (case r of
         Inl e \<Rightarrow> val = Inl e
       | Inr (out, attn) \<Rightarrow>
           rng s' = rng s + c \<and>
           length (heap s) \<le> out \<and> out < length (heap s') \<and>
           length (heap s) \<le> attn \<and> attn < length (heap s') \<and>
           val = Inr (heap s' ! out, heap s' ! attn)))"

lemma frame_nth: "frame n s s' \<Longrightarrow> a < n \<Longrightarrow> heap s' ! a = heap s ! a"
  by (simp add: frame_def)

lemma frame_length: "frame n s s' \<Longrightarrow> length (heap s) \<le> length (heap s')"
  by (simp add: frame_def)

lemma frame_noise: "frame n s s' \<Longrightarrow> noise s' = noise s"
  by (simp add: frame_def)

lemma run_bnd:
  "run m s (\<lambda>r s1. case r of Inl e \<Rightarrow> Q (Inl e) s1 | Inr x \<Rightarrow> run (f x) s1 Q) \<Longrightarrow> run (bnd m f) s Q"
  by (auto simp: run_def bnd_def split: prod.splits sum.splits)

lemma run_return: "Q (Inr x) s \<Longrightarrow> run (return x) s Q"
  by (simp add: run_def return_def)

lemma run_lift:
  "(\<And>e. r = Inl e \<Longrightarrow> Q (Inl e) s) \<Longrightarrow> (\<And>x. r = Inr x \<Longrightarrow> Q (Inr x) s) \<Longrightarrow> run (lift r) s Q"
  by (cases r) (simp_all add: run_def lift_def)

lemma run_size:
  assumes "a < length (heap s)"
    and "\<And>e. size_dim (heap s ! a) d = Inl e \<Longrightarrow> Q (Inl e) s"
    and "\<And>n. size_dim (heap s ! a) d = Inr n \<Longrightarrow> Q (Inr n) s"
  shows "run (size_st a d) s Q"
  using assms
  by (cases "size_dim (heap s ! a) d") (simp_all add: run_def size_st_def bnd_def load_def lift_def)

lemma run_op1:
  assumes "a < length (heap s)"
    and "\<And>e. f (heap s ! a) = Inl e \<Longrightarrow> Q (Inl e) s"
    and "\<And>t. f (heap s ! a) = Inr t \<Longrightarrow> Q (Inr (length (heap s))) (s\<lparr>heap := heap s @ [t]\<rparr>)"
  shows "run (op1 f a) s Q"
  using assms
  by (cases "f (heap s ! a)") (simp_all add: run_def op1_def bnd_def load_def lift_def alloc_def)

lemma run_op2:
  assumes "a < length (heap s)" "b < length (heap s)"
    and "\<And>e. f (heap s ! a) (heap s ! b) = Inl e \<Longrightarrow> Q (Inl e) s"
    and "\<And>t. f (heap s ! a) (heap s ! b) = Inr t \<Longrightarrow>
           Q (Inr (length (heap s))) (s\<lparr>heap := heap s @ [t]\<rparr>)"
  shows "run (op2 f a b) s Q"
  using assms
  by (cases "f (heap s ! a) (heap s ! b)")
     (simp_all add: run_def op2_def bnd_def load_def lift_def alloc_def)

lemma run_iadd:
  assumes "a < length (heap s)" "b < length (heap s)"
    and "\<And>e. add_inplace (heap s ! a) (heap s ! b) = Inl e \<Longrightarrow> Q (Inl e) s"
    and "\<And>t. add_inplace (heap s ! a) (heap s ! b) = Inr t \<Longrightarrow>
           Q (Inr a) (s\<lparr>heap := (heap s)[a := t]\<rparr>)"
  shows "run (iadd a b) s Q"
  using assms
  by (cases "add_inplace (heap s ! a) (heap s ! b)")
     (simp_all add: run_def iadd_def bnd_def load_def lift_def store_at_def return_def)

lemma run_Dropout:
  assumes "a < length (heap s)"
    and "\<And>a' s'. length (heap s) \<le> length (heap s') \<Longrightarrow>
           (\<And>b. b < length (heap s) \<Longrightarrow> heap s' ! b = heap s ! b) \<Longrightarrow>
           noise s' = noise s \<Longrightarrow> rng s' = Suc (rng s) \<Longrightarrow>
           a' < length (heap s') \<Longrightarrow> min a (length (heap s)) \<le> a' \<Longrightarrow>
           heap s' ! a' = dropout_value D (noise s (rng s)) (heap s ! a) \<Longrightarrow> Q (Inr a') s'"
  shows "run (Dropout_forward D a) s Q"
proof (cases "dropout_active D (heap s ! a)")
  case True
  have "Q (Inr (length (heap s)))
          (s\<lparr>rng := Suc (rng s),
             heap := heap s @ [dropout_noise (dropout_p D) (noise s (rng s)) (heap s ! a)]\<rparr>)"
    by (rule assms(2)) (simp_all add: dropout_value_def True nth_append)
  then show ?thesis
    using assms(1) True
    by (simp add: run_def Dropout_forward_def bnd_def load_def alloc_def return_def next_draw_def)
next
  case False
  have "Q (Inr a) (s\<lparr>rng := Suc (rng s)\<rparr>)"
    by (rule assms(2)) (simp_all add: dropout_value_def False assms(1))
  then show ?thesis
    using assms(1) False
    by (simp add: run_def Dropout_forward_def bnd_def load_def alloc_def return_def next_draw_def)
qed

lemma run_post1:
  assumes "run m s (post1 c s val)"
    and "\<And>e s'. length (heap s) \<le> length (heap s') \<Longrightarrow>
           (\<And>b. b < length (heap s) \<Longrightarrow> heap s' ! b = heap s ! b) \<Longrightarrow>
           noise s' = noise s \<Longrightarrow> val = Inl e \<Longrightarrow> Q (Inl e) s'"
    and "\<And>out t s'. length (heap s) \<le> length (heap s') \<Longrightarrow>
           (\<And>b. b < length (heap s) \<Longrightarrow> heap s' ! b = heap s ! b) \<Longrightarrow>
           noise s' = noise s \<Longrightarrow> rng s' = rng s + c \<Longrightarrow>
           length (heap s) \<le> out \<Longrightarrow> out < length (heap s') \<Longrightarrow>
           val = Inr t \<Longrightarrow> heap s' ! out = t \<Longrightarrow> Q (Inr out) s'"
  shows "run m s Q"
proof (cases "m s")
  case (Pair r s')
  with assms(1) have p: "post1 c s val r s'" by (simp add: run_def)
  then have f: "frame (length (heap s)) s s'" by (simp add: post1_def)
  note fl = frame_length [OF f] and fn = frame_noise [OF f] and fx = frame_nth [OF f]
  show ?thesis
  proof (cases r)
    case (Inl e)
    with p have "val = Inl e" by (simp add: post1_def)
    then have "Q (Inl e) s'" using fl fx fn by (intro assms(2))
    then show ?thesis using Pair Inl by (simp add: run_def)
  next
    case (Inr out)
    with p have "rng s' = rng s + c" "length (heap s) \<le> out" "out < length (heap s')"
      "val = Inr (heap s' ! out)" by (simp_all add: post1_def)
    then have "Q (Inr out) s'" using fl fx fn by (intro assms(3) [where t = "heap s' ! out"]) auto
    then show ?thesis using Pair Inr by (simp add: run_def)
  qed
qed

lemma run_post2:
  assumes "run m s (post2 c s val)"
    and "\<And>e s'. length (heap s) \<le> length (heap s') \<Longrightarrow>
           (\<And>b. b < length (heap s) \<Longrightarrow> heap s' ! b = heap s ! b) \<Longrightarrow>
           noise s' = noise s \<Longrightarrow> val = Inl e \<Longrightarrow> Q (Inl e) s'"
    and "\<And>out attn t w s'. length (heap s) \<le> length (heap s') \<Longrightarrow>
           (\<And>b. b < length (heap s) \<Longrightarrow> heap s' ! b = heap s ! b) \<Longrightarrow>
           noise s' = noise s \<Longrightarrow> rng s' = rng s + c \<Longrightarrow>
           length (heap s) \<le> out \<Longrightarrow> out < length (heap s') \<Longrightarrow>
           length (heap s) \<le> attn \<Longrightarrow> attn < length (heap s') \<Longrightarrow>
           val = Inr (t, w) \<Longrightarrow> heap s' ! out = t \<Longrightarrow> heap s' ! attn = w \<Longrightarrow>
           Q (Inr (out, attn)) s'"
  shows "run m s Q"
proof (cases "m s")
  case (Pair r s')
  with assms(1) have p: "post2 c s val r s'" by (simp add: run_def)
  then have f: "frame (length (heap s)) s s'" by (simp add: post2_def)
  note fl = frame_length [OF f] and fn = frame_noise [OF f] and fx = frame_nth [OF f]
  show ?thesis
  proof (cases r)
    case (Inl e)
    with p have "val = Inl e" by (simp add: post2_def)
    then have "Q (Inl e) s'" using fl fx fn by (intro assms(2))
    then show ?thesis using Pair Inl by (simp add: run_def)
  next
    case (Inr oa)
    obtain out attn where oa: "oa = (out, attn)" by (cases oa)
    with Inr p have "rng s' = rng s + c" "length (heap s) \<le> out" "out < length (heap s')"
      "length (heap s) \<le> attn" "attn < length (heap s')"
      "val = Inr (heap s' ! out, heap s' ! attn)" by (simp_all add: post2_def)
    then have "Q (Inr (out, attn)) s'"
      using fl fx fn
      by (intro assms(3) [where t = "heap s' ! out" and w = "heap s' ! attn"]) auto
    then show ?thesis using Pair Inr oa by (simp add: run_def)
  qed
qed

definition FFN_value :: "PositionWiseFeedForward \<Rightarrow> (nat \<Rightarrow> bool) \<Rightarrow> tensor \<Rightarrow> error + tensor" where
  "FFN_value F keep x =
     bindE (linear (linear_1 F) x) (\<lambda>h.
     bindE (linear (linear_2 F) (relu h)) (\<lambda>y.
     bindE (add_inplace (dropout_value (ffn_dropout F) keep y) x) (\<lambda>z.
     layer_norm (ffn_layer_norm F) z)))"

lemma FFN_run:
  assumes "x < length (heap s)"
  shows "run (PositionWiseFeedForward_forward F x) s
           (post1 1 s (FFN_value F (noise s (rng s)) (heap s ! x)))"
  unfolding PositionWiseFeedForward_forward_def Linear_forward_def LayerNorm_forward_def Let_def
    FFN_value_def post1_def
  apply (insert assms)
  apply (rule run_bnd, rule run_op1; (simp add: nth_append bindE_def frame_def)?)
  apply (rule run_bnd, rule run_op1; (simp add: nth_append bindE_def frame_def)?)
  apply (rule run_bnd, rule run_op1; (simp add: nth_append bindE_def frame_def)?)
  apply (rule run_bnd, rule run_Dropout; (simp add: nth_append bindE_def frame_def)?)
  apply (rule run_bnd, rule run_iadd; (simp add: nth_append bindE_def frame_def)?)
  apply (rule run_bnd, rule run_op1; (simp add: nth_append bindE_def frame_def)?)
  apply (rule run_return; (simp add: nth_append bindE_def frame_def)?)
  done

definition sdpa_value ::
  "ScaledDotProductAttention \<Rightarrow> (nat \<Rightarrow> bool) \<Rightarrow> tensor \<Rightarrow> tensor \<Rightarrow> tensor \<Rightarrow> tensor option
     \<Rightarrow> error + tensor \<times> tensor" where
  "sdpa_value A keep q k v attn_mask =
     bindE (transpose_t k 2 3) (\<lambda>k_t.
     bindE (matmul (div_scalar q (temperature A)) k_t) (\<lambda>scores.
     bindE (case attn_mask of
              None \<Rightarrow> Inr scores
            | Some m \<Rightarrow> masked_fill scores (eq_scalar m 1) (- 1000000000)) (\<lambda>scores.
     bindE (matmul (dropout_value (sdpa_dropout A) keep (softmax scores)) v) (\<lambda>output.
     Inr (output, dropout_value (sdpa_dropout A) keep (softmax scores))))))"

lemma sdpa_run_None:
  assumes "q < length (heap s)" "k < length (heap s)" "v < length (heap s)"
  shows "run (ScaledDotProductAttention_forward A q k v None) s
           (post2 1 s (sdpa_value A (noise s (rng s)) (heap s ! q) (heap s ! k) (heap s ! v) None))"
  unfolding ScaledDotProductAttention_forward_def sdpa_value_def post2_def
  apply (insert assms)
  apply (rule run_bnd, rule run_op1; (simp add: nth_append bindE_def frame_def)?)
  apply (rule run_bnd, rule run_op1; (simp add: nth_append bindE_def frame_def)?)
  apply (rule run_bnd, rule run_op2; (simp add: nth_append bindE_def frame_def)?)
  apply (rule run_bnd, rule run_return; (simp add: nth_append bindE_def frame_def)?)
  apply (rule run_bnd, rule run_op1; (simp add: nth_append bindE_def frame_def)?)
  apply (rule run_bnd, rule run_Dropout; (simp add: nth_append bindE_def frame_def)?)
  apply (rule run_bnd, rule run_op2; (simp add: nth_append bindE_def frame_def)?)
  apply (rule run_return; (simp add: nth_append bindE_def frame_def)?)
  done

lemma sdpa_run_Some:
  assumes "q < length (heap s)" "k < length (heap s)" "v < length (heap s)" "m < length (heap s)"
  shows "run (ScaledDotProductAttention_forward A q k v (Some m)) s
           (post2 1 s (sdpa_value A (noise s (rng s)) (heap s ! q) (heap s ! k) (heap s ! v)
              (Some (heap s ! m))))"
  unfolding ScaledDotProductAttention_forward_def sdpa_value_def post2_def
  apply (insert assms)
  apply (rule run_bnd, rule run_op1; (simp add: nth_append bindE_def frame_def)?)
  apply (rule run_bnd, rule run_op1; (simp add: nth_append bindE_def frame_def)?)
  apply (rule run_bnd, rule run_op2; (simp add: nth_append bindE_def frame_def)?)
  apply (rule run_bnd, simp only: option.case)
  apply (rule run_bnd, rule run_op1; (simp add: nth_append bindE_def frame_def)?)
  apply (rule run_op2; (simp add: nth_append bindE_def frame_def)?)
  apply (rule run_bnd, rule run_op1; (simp add: nth_append bindE_def frame_def)?)
  apply (rule run_bnd, rule run_Dropout; (simp add: nth_append bindE_def frame_def)?)
  apply (rule run_bnd, rule run_op2; (simp add: nth_append bindE_def frame_def)?)
  apply (rule run_return; (simp add: nth_append bindE_def frame_def)?)
  done


definition merged_heads ::
  "MultiHeadAttention \<Rightarrow> (nat \<Rightarrow> bool) \<Rightarrow> tensor \<Rightarrow> tensor \<Rightarrow> tensor \<Rightarrow> tensor option
     \<Rightarrow> error + tensor \<times> tensor" where
  "merged_heads M keep q k v attn_mask =
     bindE (size_dim q 0) (\<lambda>batch_size.
     bindE (size_dim q 1) (\<lambda>n_steps.
     bindE (linear (w_qs M) q) (\<lambda>q1.
     bindE (view q1 [batch_size, n_steps, n_head M, d_k M]) (\<lambda>q2.
     bindE (linear (w_ks M) k) (\<lambda>k1.
     bindE (view k1 [batch_size, n_steps, n_head M, d_k M]) (\<lambda>k2.
     bindE (linear (w_vs M) v) (\<lambda>v1.
     bindE (view v1 [batch_size, n_steps, n_head M, d_v M]) (\<lambda>v2.
     bindE (transpose_t q2 1 2) (\<lambda>q3.
     bindE (transpose_t k2 1 2) (\<lambda>k3.
     bindE (transpose_t v2 1 2) (\<lambda>v3.
     bindE (case attn_mask of
              None \<Rightarrow> Inr None
            | Some m \<Rightarrow> bindE (unsqueeze m 1) (\<lambda>m. Inr (Some m))) (\<lambda>mask.
     bindE (sdpa_value (attention M) keep q3 k3 v3 mask) (\<lambda>(heads, attn_weights).
     bindE (transpose_t heads 1 2) (\<lambda>heads.
     bindE (view_infer heads [batch_size, n_steps]) (\<lambda>merged.
     Inr (merged, attn_weights))))))))))))))))"

definition MHA_value ::
  "MultiHeadAttention \<Rightarrow> (nat \<Rightarrow> nat \<Rightarrow> bool) \<Rightarrow> nat \<Rightarrow> tensor \<Rightarrow> tensor \<Rightarrow> tensor
     \<Rightarrow> tensor option \<Rightarrow> error + tensor \<times> tensor" where
  "MHA_value M keeps c q k v attn_mask =
     bindE (merged_heads M (keeps c) q k v attn_mask) (\<lambda>(merged, attn_weights).
     bindE (linear (fc M) merged) (\<lambda>y.
     bindE (add_inplace (dropout_value (mha_dropout M) (keeps (Suc c)) y) q) (\<lambda>z.
     bindE (layer_norm (mha_layer_norm M) z) (\<lambda>out.
     Inr (out, attn_weights)))))"

section \<open>Keyword binding at the call sites\<close>

lemma bind_args_mask:
  "bind_args [(''q'', None), (''k'', None), (''v'', None), (''attn_mask'', None)] args [(''mask'', m)]
     = Inl (TypeError ''unexpected keyword argument: mask'')"
  by (simp add: bind_args_def)

lemma bind_args_attn_mask:
  "bind_args [(''q'', None), (''k'', None), (''v'', None), (''attn_mask'', None)]
     [a, b, c] [(''attn_mask'', m)] = Inr [a, b, c, m]"
  by (simp add: bind_args_def bind_param_def bindE_def upt_rec_numeral)

lemma Decoder_getattr_layer_stack:
  "Decoder_getattr D ''layer_stack'' = Inl (AttributeError ''layer_stack'')"
  by (simp add: Decoder_getattr_def Decoder_modules_def)

section \<open>Attention and encoder layer: what a call computes\<close>

lemma MHA_run_None:
  assumes "q < length (heap s)" "k < length (heap s)" "v < length (heap s)"
  shows "run (MultiHeadAttention_forward M q k v None) s
           (post2 2 s (MHA_value M (noise s) (rng s) (heap s ! q) (heap s ! k) (heap s ! v) None))"
  unfolding MultiHeadAttention_forward_def MHA_value_def merged_heads_def post2_def
    Linear_forward_def LayerNorm_forward_def Let_def
  apply (insert assms)
  apply (rule run_bnd, rule run_size; (simp add: nth_append bindE_def frame_def)?)
  apply (rule run_bnd, rule run_size; (simp add: nth_append bindE_def frame_def)?)
  apply (rule run_bnd, rule run_op1; (simp add: nth_append bindE_def frame_def)?)
  apply (rule run_bnd, rule run_op1; (simp add: nth_append bindE_def frame_def)?)
  apply (rule run_bnd, rule run_op1; (simp add: nth_append bindE_def frame_def)?)
  apply (rule run_bnd, rule run_op1; (simp add: nth_append bindE_def frame_def)?)
  apply (rule run_bnd, rule run_op1; (simp add: nth_append bindE_def frame_def)?)
  apply (rule run_bnd, rule run_op1; (simp add: nth_append bindE_def frame_def)?)
  apply (rule run_bnd, rule run_op1; (simp add: nth_append bindE_def frame_def)?)
  apply (rule run_bnd, rule run_op1; (simp add: nth_append bindE_def frame_def)?)
  apply (rule run_bnd, rule run_op1; (simp add: nth_append bindE_def frame_def)?)
  apply (rule run_bnd, rule run_return; (simp add: nth_append bindE_def frame_def)?)
  apply (rule run_bnd, rule run_post2 [OF sdpa_run_None]; (simp add: nth_append bindE_def frame_def)?)
  apply (rule run_bnd, rule run_op1; (simp add: nth_append bindE_def frame_def)?)
  apply (rule run_bnd, rule run_op1; (simp add: nth_append bindE_def frame_def)?)
  apply (rule run_bnd, rule run_op1; (simp add: nth_append bindE_def frame_def)?)
  apply (rule run_bnd, rule run_Dropout; (simp add: nth_append bindE_def frame_def)?)
  apply (rule run_bnd, rule run_iadd; (simp add: nth_append bindE_def frame_def)?)
  apply (rule run_bnd, rule run_op1; (simp add: nth_append bindE_def frame_def)?)
  apply (rule run_return; (simp add: nth_append bindE_def frame_def)?)
  done

lemma MHA_run_Some:
  assumes "q < length (heap s)" "k < length (heap s)" "v < length (heap s)" "m < length (heap s)"
  shows "run (MultiHeadAttention_forward M q k v (Some m)) s
           (post2 2 s (MHA_value M (noise s) (rng s) (heap s ! q) (heap s ! k) (heap s ! v)
              (Some (heap s ! m))))"
  unfolding MultiHeadAttention_forward_def MHA_value_def merged_heads_def post2_def
    Linear_forward_def LayerNorm_forward_def Let_def
  apply (insert assms)
  apply (rule run_bnd, rule run_size; (simp add: nth_append bindE_def frame_def)?)
  apply (rule run_bnd, rule run_size; (simp add: nth_append bindE_def frame_def)?)
  apply (rule run_bnd, rule run_op1; (simp add: nth_append bindE_def frame_def)?)
  apply (rule run_bnd, rule run_op1; (simp add: nth_append bindE_def frame_def)?)
  apply (rule run_bnd, rule run_op1; (simp add: nth_append bindE_def frame_def)?)
  apply (rule run_bnd, rule run_op1; (simp add: nth_append bindE_def frame_def)?)
  apply (rule run_bnd, rule run_op1; (simp add: nth_append bindE_def frame_def)?)
  apply (rule run_bnd, rule run_op1; (simp add: nth_append bindE_def frame_def)?)
  apply (rule run_bnd, rule run_op1; (simp add: nth_append bindE_def frame_def)?)
  apply (rule run_bnd, rule run_op1; (simp add: nth_append bindE_def frame_def)?)
  apply (rule run_bnd, rule run_op1; (simp add: nth_append bindE_def frame_def)?)
  apply (rule run_bnd, simp only: option.case)
  apply (rule run_bnd, rule run_op1; (simp add: nth_append bindE_def frame_def)?)
  apply (rule run_return; (simp add: nth_append bindE_def frame_def)?)
  apply (rule run_bnd, rule run_post2 [OF sdpa_run_Some]; (simp add: nth_append bindE_def frame_def)?)
  apply (rule run_bnd, rule run_op1; (simp add: nth_append bindE_def frame_def)?)
  apply (rule run_bnd, rule run_op1; (simp add: nth_append bindE_def frame_def)?)
  apply (rule run_bnd, rule run_op1; (simp add: nth_append bindE_def frame_def)?)
  apply (rule run_bnd, rule run_Dropout; (simp add: nth_append bindE_def frame_def)?)
  apply (rule run_bnd, rule run_iadd; (simp add: nth_append bindE_def frame_def)?)
  apply (rule run_bnd, rule run_op1; (simp add: nth_append bindE_def frame_def)?)
  apply (rule run_return; (simp add: nth_append bindE_def frame_def)?)
  done

definition deref :: "state \<Rightarrow> addr option \<Rightarrow> tensor option" where
  "deref s a = map_option (\<lambda>m. heap s ! m) a"

definition valid_ref :: "state \<Rightarrow> addr option \<Rightarrow> bool" where
  "valid_ref s a = (case a of None \<Rightarrow> True | Some m \<Rightarrow> m < length (heap s))"

lemma MHA_run:
  assumes "q < length (heap s)" "k < length (heap s)" "v < length (heap s)" "valid_ref s attn_mask"
  shows "run (MultiHeadAttention_forward M q k v attn_mask) s
           (post2 2 s (MHA_value M (noise s) (rng s) (heap s ! q) (heap s ! k) (heap s ! v)
              (deref s attn_mask)))"
  using assms MHA_run_None [of q s k v M] MHA_run_Some [of q s k v _ M]
  by (cases attn_mask) (simp_all add: deref_def valid_ref_def)

lemma sdpa_run:
  assumes "q < length (heap s)" "k < length (heap s)" "v < length (heap s)" "valid_ref s attn_mask"
  shows "run (ScaledDotProductAttention_forward A q k v attn_mask) s
           (post2 1 s (sdpa_value A (noise s (rng s)) (heap s ! q) (heap s ! k) (heap s ! v)
              (deref s attn_mask)))"
  using assms sdpa_run_None [of q s k v A] sdpa_run_Some [of q s k v _ A]
  by (cases attn_mask) (simp_all add: deref_def valid_ref_def)

lemma MHA_call_attn_mask:
  "MultiHeadAttention_call M [Some q, Some k, Some v] [(''attn_mask'', attn_mask)]
     = MultiHeadAttention_forward M q k v attn_mask"
  by (simp add: MultiHeadAttention_call_def bind_args_attn_mask bnd_def lift_def)

definition EncoderLayer_value ::
  "EncoderLayer \<Rightarrow> (nat \<Rightarrow> nat \<Rightarrow> bool) \<Rightarrow> nat \<Rightarrow> tensor \<Rightarrow> tensor option
     \<Rightarrow> error + tensor \<times> tensor" where
  "EncoderLayer_value L keeps c x src_mask =
     bindE (MHA_value (enc_slf_attn L) keeps c x x x src_mask) (\<lambda>(y, attn_weights).
     bindE (FFN_value (enc_pos_ffn L) (keeps (c + 2)) y) (\<lambda>z.
     Inr (z, attn_weights)))"

lemma EncoderLayer_run:
  assumes "x < length (heap s)" "valid_ref s src_mask"
  shows "run (EncoderLayer_forward L x src_mask) s
           (post2 3 s (EncoderLayer_value L (noise s) (rng s) (heap s ! x) (deref s src_mask)))"
  unfolding EncoderLayer_forward_def EncoderLayer_value_def MHA_call_attn_mask post2_def
  apply (insert assms)
  apply (rule run_bnd, rule run_post2 [OF MHA_run]; (simp add: nth_append bindE_def frame_def)?)
  apply (rule run_bnd, rule run_post1 [OF FFN_run]; (simp add: nth_append bindE_def frame_def)?)
  apply (rule run_return; (simp add: nth_append bindE_def frame_def)?)
  done

section \<open>Shapes: when a call succeeds\<close>

lemma broadcast_rev_same: "broadcast_rev xs xs = Some xs"
  by (induction xs) simp_all

lemma broadcast_shapes_same: "broadcast_shapes sh sh = Some sh"
  by (simp add: broadcast_shapes_def broadcast_rev_same)

lemma shape_div_scalar [simp]: "shape (div_scalar t c) = shape t"
  by (simp add: div_scalar_def)

lemma shape_eq_scalar [simp]: "shape (eq_scalar t c) = shape t"
  by (simp add: eq_scalar_def)

lemma shape_relu [simp]: "shape (relu t) = shape t"
  by (simp add: relu_def)

lemma shape_softmax [simp]: "shape (softmax t) = shape t"
  by (simp add: softmax_def Let_def)

lemma shape_dropout_value [simp]: "shape (dropout_value D keep t) = shape t"
  by (simp add: dropout_value_def dropout_noise_def)

lemma linear_ex:
  "shape x = sh @ [in_features L] \<Longrightarrow>
   \<exists>t. linear L x = Inr t \<and> shape t = sh @ [out_features L]"
  by (simp add: linear_def)

lemma layer_norm_ex:
  "shape x = sh @ [normalized_shape N] \<Longrightarrow> \<exists>t. layer_norm N x = Inr t \<and> shape t = shape x"
  by (simp add: layer_norm_def)

lemma view_ex:
  "prod_list sh = prod_list (shape t) \<Longrightarrow> \<exists>t'. view t sh = Inr t' \<and> shape t' = sh"
  by (simp add: view_def numel_def)

lemma view_infer_ex:
  "0 < prod_list sh \<Longrightarrow> prod_list (shape t) = prod_list sh * n \<Longrightarrow>
   \<exists>t'. view_infer t sh = Inr t' \<and> shape t' = sh @ [n]"
  by (simp add: view_infer_def numel_def)

lemma transpose_12_ex:
  "shape t = [a, b, c, d] \<Longrightarrow> \<exists>t'. transpose_t t 1 2 = Inr t' \<and> shape t' = [a, c, b, d]"
  by (simp add: transpose_t_def swap_dims_def numeral_2_eq_2)

lemma transpose_23_ex:
  "shape t = [a, b, c, d] \<Longrightarrow> \<exists>t'. transpose_t t 2 3 = Inr t' \<and> shape t' = [a, b, d, c]"
  by (simp add: transpose_t_def swap_dims_def numeral_2_eq_2 numeral_3_eq_3)

lemma matmul_ex:
  "shape a = [B, H, I, K] \<Longrightarrow> shape b = [B, H, K, J] \<Longrightarrow>
   \<exists>t. matmul a b = Inr t \<and> shape t = [B, H, I, J]"
  by (simp add: matmul_def Let_def broadcast_shapes_same)

lemma masked_fill_ex:
  "broadcast_shapes (shape t) (shape m) = Some sh \<Longrightarrow>
   \<exists>t'. masked_fill t m v = Inr t' \<and> shape t' = sh"
  by (simp add: masked_fill_def)

lemma add_inplace_ex:
  "shape b = shape a \<Longrightarrow> \<exists>t. add_inplace a b = Inr t \<and> shape t = shape a"
  by (simp add: add_inplace_def add_def broadcast_shapes_same)

lemma unsqueeze_1_ex:
  "shape t = a # sh \<Longrightarrow> \<exists>t'. unsqueeze t 1 = Inr t' \<and> shape t' = a # 1 # sh"
  by (simp add: unsqueeze_def)


lemma sdpa_ok:
  assumes q: "shape q = [B, H, Sq, D]" and k: "shape k = [B, H, Sk, D]"
    and v: "shape v = [B, H, Sk, Dv]"
    and m: "\<And>m. attn_mask = Some m \<Longrightarrow>
              broadcast_shapes [B, H, Sq, Sk] (shape m) = Some [B, H, Sq, Sk]"
  shows "\<exists>out w. sdpa_value A keep q k v attn_mask = Inr (out, w) \<and>
           shape out = [B, H, Sq, Dv] \<and> shape w = [B, H, Sq, Sk]"
proof -
  obtain kt where kt: "transpose_t k 2 3 = Inr kt" "shape kt = [B, H, D, Sk]"
    using transpose_23_ex [OF k] by blast
  obtain sc where sc: "matmul (div_scalar q (temperature A)) kt = Inr sc" "shape sc = [B, H, Sq, Sk]"
    using matmul_ex [of "div_scalar q (temperature A)" B H Sq D kt Sk] q kt by auto
  obtain sc' where sc':
    "(case attn_mask of None \<Rightarrow> Inr sc
      | Some m \<Rightarrow> masked_fill sc (eq_scalar m 1) (- 1000000000)) = Inr sc'"
    "shape sc' = [B, H, Sq, Sk]"
  proof (cases attn_mask)
    case None
    then show ?thesis using sc that by simp
  next
    case (Some m')
    then show ?thesis
      using masked_fill_ex [of sc "eq_scalar m' 1" "[B, H, Sq, Sk]"] m [OF Some] sc that by auto
  qed
  let ?w = "dropout_value (sdpa_dropout A) keep (softmax sc')"
  obtain out where out: "matmul ?w v = Inr out" "shape out = [B, H, Sq, Dv]"
    using matmul_ex [of ?w B H Sq Sk v Dv] sc' v by auto
  show ?thesis
    using kt sc sc' out by (simp add: sdpa_value_def bindE_def)
qed

definition MHA_wf :: "nat \<Rightarrow> MultiHeadAttention \<Rightarrow> bool" where
  "MHA_wf d_model M =
     (in_features (w_qs M) = d_model \<and> out_features (w_qs M) = n_head M * d_k M \<and>
      in_features (w_ks M) = d_model \<and> out_features (w_ks M) = n_head M * d_k M \<and>
      in_features (w_vs M) = d_model \<and> out_features (w_vs M) = n_head M * d_v M \<and>
      in_features (fc M) = n_head M * d_v M \<and> out_features (fc M) = d_model \<and>
      normalized_shape (mha_layer_norm M) = d_model)"

lemma merged_heads_ok:
  assumes wf: "MHA_wf dm M"
    and q: "shape q = [B, S, dm]"
    and k: "shape k = shk @ [dm]" "prod_list shk = B * S"
    and v: "shape v = shv @ [dm]" "prod_list shv = B * S"
    and pos: "0 < B" "0 < S"
    and m: "\<And>m. attn_mask = Some m \<Longrightarrow>
              shape m \<noteq> [] \<and>
              broadcast_shapes [B, n_head M, S, S] (hd (shape m) # 1 # tl (shape m))
                = Some [B, n_head M, S, S]"
  shows "\<exists>mg w. merged_heads M keep q k v attn_mask = Inr (mg, w) \<and>
           shape mg = [B, S, n_head M * d_v M] \<and> shape w = [B, n_head M, S, S]"
proof -
  let ?H = "n_head M"
  have s0: "size_dim q 0 = Inr B" "size_dim q 1 = Inr S"
    using q by (simp_all add: size_dim_def)
  obtain q1 where q1: "linear (w_qs M) q = Inr q1" "shape q1 = [B, S] @ [?H * d_k M]"
    using linear_ex [of q "[B, S]" "w_qs M"] q wf by (auto simp: MHA_wf_def)
  obtain q2 where q2: "view q1 [B, S, ?H, d_k M] = Inr q2" "shape q2 = [B, S, ?H, d_k M]"
    using view_ex [of "[B, S, ?H, d_k M]" q1] q1 by auto
  obtain k1 where k1: "linear (w_ks M) k = Inr k1" "shape k1 = shk @ [?H * d_k M]"
    using linear_ex [of k shk "w_ks M"] k wf by (auto simp: MHA_wf_def)
  obtain k2 where k2: "view k1 [B, S, ?H, d_k M] = Inr k2" "shape k2 = [B, S, ?H, d_k M]"
    using view_ex [of "[B, S, ?H, d_k M]" k1] k1 k(2) by auto
  obtain v1 where v1: "linear (w_vs M) v = Inr v1" "shape v1 = shv @ [?H * d_v M]"
    using linear_ex [of v shv "w_vs M"] v wf by (auto simp: MHA_wf_def)
  obtain v2 where v2: "view v1 [B, S, ?H, d_v M] = Inr v2" "shape v2 = [B, S, ?H, d_v M]"
    using view_ex [of "[B, S, ?H, d_v M]" v1] v1 v(2) by auto
  obtain q3 where q3: "transpose_t q2 1 2 = Inr q3" "shape q3 = [B, ?H, S, d_k M]"
    using transpose_12_ex [OF q2(2)] by blast
  obtain k3 where k3: "transpose_t k2 1 2 = Inr k3" "shape k3 = [B, ?H, S, d_k M]"
    using transpose_12_ex [OF k2(2)] by blast
  obtain v3 where v3: "transpose_t v2 1 2 = Inr v3" "shape v3 = [B, ?H, S, d_v M]"
    using transpose_12_ex [OF v2(2)] by blast
  obtain mk where mk:
    "(case attn_mask of None \<Rightarrow> Inr None
      | Some m \<Rightarrow> bindE (unsqueeze m 1) (\<lambda>m. Inr (Some m))) = Inr mk"
    "\<And>m'. mk = Some m' \<Longrightarrow>
       broadcast_shapes [B, ?H, S, S] (shape m') = Some [B, ?H, S, S]"
  proof (cases attn_mask)
    case None
    then show ?thesis using that by simp
  next
    case (Some m0)
    obtain a sh where a: "shape m0 = a # sh"
      using m [OF Some] by (cases "shape m0") auto
    obtain m1 where "unsqueeze m0 1 = Inr m1" "shape m1 = a # 1 # sh"
      using unsqueeze_1_ex [OF a] by auto
    then show ?thesis
      using Some that [of "Some m1"] m [OF Some] a by (simp add: bindE_def)
  qed
  obtain hd w where hw: "sdpa_value (attention M) keep q3 k3 v3 mk = Inr (hd, w)"
    "shape hd = [B, ?H, S, d_v M]" "shape w = [B, ?H, S, S]"
    using sdpa_ok [OF q3(2) k3(2) v3(2) mk(2)] by blast
  obtain h1 where h1: "transpose_t hd 1 2 = Inr h1" "shape h1 = [B, S, ?H, d_v M]"
    using transpose_12_ex [OF hw(2)] by blast
  obtain mg where mg: "view_infer h1 [B, S] = Inr mg" "shape mg = [B, S] @ [?H * d_v M]"
    using view_infer_ex [of "[B, S]" h1 "?H * d_v M"] h1 pos by auto
  have "merged_heads M keep q k v attn_mask = Inr (mg, w)"
    unfolding merged_heads_def
    by (simp only: bindE_def s0 q1 q2 k1 k2 v1 v2 q3 k3 v3 mk(1) [unfolded bindE_def] hw h1 mg
        sum.case prod.case)
  then show ?thesis
    using mg(2) hw(3) by simp
qed

lemma MHA_ok:
  assumes wf: "MHA_wf dm M"
    and q: "shape q = [B, S, dm]"
    and k: "shape k = shk @ [dm]" "prod_list shk = B * S"
    and v: "shape v = shv @ [dm]" "prod_list shv = B * S"
    and pos: "0 < B" "0 < S"
    and m: "\<And>m. attn_mask = Some m \<Longrightarrow>
              shape m \<noteq> [] \<and>
              broadcast_shapes [B, n_head M, S, S] (hd (shape m) # 1 # tl (shape m))
                = Some [B, n_head M, S, S]"
  shows "\<exists>out w. MHA_value M keeps c q k v attn_mask = Inr (out, w) \<and>
           shape out = [B, S, dm] \<and> shape w = [B, n_head M, S, S]"
proof -
  obtain mg w where mg: "merged_heads M (keeps c) q k v attn_mask = Inr (mg, w)"
    "shape mg = [B, S] @ [n_head M * d_v M]" and w: "shape w = [B, n_head M, S, S]"
    using merged_heads_ok [OF wf q k v pos m, of attn_mask "keeps c"] by auto
  obtain y where y: "linear (fc M) mg = Inr y" "shape y = [B, S] @ [dm]"
    using linear_ex [of mg "[B, S]" "fc M"] mg wf by (auto simp: MHA_wf_def)
  let ?d = "dropout_value (mha_dropout M) (keeps (Suc c)) y"
  obtain z where z: "add_inplace ?d q = Inr z" "shape z = [B, S, dm]"
    using add_inplace_ex [of q ?d] y q by auto
  obtain out where out: "layer_norm (mha_layer_norm M) z = Inr out" "shape out = [B, S, dm]"
    using layer_norm_ex [of z "[B, S]" "mha_layer_norm M"] z wf by (auto simp: MHA_wf_def)
  show ?thesis
    using mg(1) y z out w by (simp add: MHA_value_def bindE_def)
qed

section \<open>Residual blocks\<close>

text \<open>\<^verbatim>\<open>module.train(mode)\<close> sets the training flag of the module and of its submodules.\<close>

definition Dropout_train :: "bool \<Rightarrow> Dropout \<Rightarrow> Dropout" where
  "Dropout_train mode D = D\<lparr>training := mode\<rparr>"

definition PositionWiseFeedForward_train ::
  "bool \<Rightarrow> PositionWiseFeedForward \<Rightarrow> PositionWiseFeedForward" where
  "PositionWiseFeedForward_train mode F = F\<lparr>ffn_dropout := Dropout_train mode (ffn_dropout F)\<rparr>"

definition ScaledDotProductAttention_train ::
  "bool \<Rightarrow> ScaledDotProductAttention \<Rightarrow> ScaledDotProductAttention" where
  "ScaledDotProductAttention_train mode A = A\<lparr>sdpa_dropout := Dropout_train mode (sdpa_dropout A)\<rparr>"

definition MultiHeadAttention_train :: "bool \<Rightarrow> MultiHeadAttention \<Rightarrow> MultiHeadAttention" where
  "MultiHeadAttention_train mode M =
     M\<lparr>attention := ScaledDotProductAttention_train mode (attention M),
       mha_dropout := Dropout_train mode (mha_dropout M)\<rparr>"

definition FFN_wf :: "nat \<Rightarrow> PositionWiseFeedForward \<Rightarrow> bool" where
  "FFN_wf d_in F =
     (in_features (linear_1 F) = d_in \<and> in_features (linear_2 F) = out_features (linear_1 F) \<and>
      out_features (linear_2 F) = d_in \<and> normalized_shape (ffn_layer_norm F) = d_in)"

lemma FFN_init_wf:
  "PositionWiseFeedForward_init d_in d_hid p \<theta> = Inr F \<Longrightarrow>
   FFN_wf d_in (PositionWiseFeedForward_train mode F) \<and>
   eps (ffn_layer_norm (PositionWiseFeedForward_train mode F)) = 1 / 1000000"
  by (auto simp: PositionWiseFeedForward_init_def PositionWiseFeedForward_train_def FFN_wf_def
      bindE_def Linear_init_def LayerNorm_init_def split: sum.splits)

lemma MHA_init_wf:
  "MultiHeadAttention_init n_heads d_model dk dv p pa \<theta> = Inr M \<Longrightarrow>
   MHA_wf d_model (MultiHeadAttention_train mode M) \<and>
   eps (mha_layer_norm (MultiHeadAttention_train mode M)) = 1 / 1000000 \<and>
   temperature (attention (MultiHeadAttention_train mode M)) = sqrt (real dk) \<and>
   n_head (MultiHeadAttention_train mode M) = n_heads \<and>
   d_k (MultiHeadAttention_train mode M) = dk \<and> d_v (MultiHeadAttention_train mode M) = dv"
  by (auto simp: MultiHeadAttention_init_def MultiHeadAttention_train_def MHA_wf_def
      ScaledDotProductAttention_init_def ScaledDotProductAttention_train_def
      bindE_def Linear_init_def LayerNorm_init_def split: sum.splits)

lemma add_inplace_same: "shape b = shape a \<Longrightarrow> add_inplace a b = add a b"
  by (simp add: add_inplace_def broadcast_shapes_same)

lemma FFN_ok:
  assumes wf: "FFN_wf d_in F" and x: "shape x = sh @ [d_in]"
  shows "\<exists>h y z out. linear (linear_1 F) x = Inr h \<and> linear (linear_2 F) (relu h) = Inr y \<and>
           add (dropout_value (ffn_dropout F) keep y) x = Inr z \<and>
           layer_norm (ffn_layer_norm F) z = Inr out \<and> shape out = shape x \<and>
           FFN_value F keep x = Inr out"
proof -
  obtain h where h: "linear (linear_1 F) x = Inr h" "shape h = sh @ [out_features (linear_1 F)]"
    using linear_ex [of x sh "linear_1 F"] x wf by (auto simp: FFN_wf_def)
  obtain y where y: "linear (linear_2 F) (relu h) = Inr y" "shape y = sh @ [d_in]"
    using linear_ex [of "relu h" sh "linear_2 F"] h wf by (auto simp: FFN_wf_def)
  let ?d = "dropout_value (ffn_dropout F) keep y"
  have sd: "shape x = shape ?d" using x y by simp
  obtain z where z: "add_inplace ?d x = Inr z" "shape z = sh @ [d_in]"
    using add_inplace_ex [OF sd] y by auto
  obtain out where out: "layer_norm (ffn_layer_norm F) z = Inr out" "shape out = shape z"
    using layer_norm_ex [of z sh "ffn_layer_norm F"] z wf by (auto simp: FFN_wf_def)
  have "add ?d x = Inr z" using z(1) add_inplace_same [OF sd] by simp
  then show ?thesis
    using h y z out x by (simp add: FFN_value_def bindE_def)
qed

lemma run_fst:
  "run m s Q \<Longrightarrow> \<exists>r s'. m s = (r, s') \<and> Q r s'"
  by (cases "m s") (simp add: run_def)

text \<open>
  Claim C8. For a feed-forward block as constructed (in training or evaluation mode) and
  an input \<open>x\<close> of shape \<open>[batch, steps, d_in]\<close>, the call returns a new tensor equal to
  \<open>LayerNorm(dropout(linear_2(relu(linear_1(x)))) + x)\<close>, where \<open>x\<close> is the value of the
  input before the call; the layer normalisation has epsilon \<open>1e-6\<close>; the result has the
  shape of the input, and the input object still holds \<open>x\<close>.
\<close>

theorem PositionWiseFeedForward_forward_spec:
  assumes init: "PositionWiseFeedForward_init d_in d_hid p \<theta> = Inr F0"
    and F: "F = PositionWiseFeedForward_train mode F0"
    and x: "x < length (heap s)"
    and sh: "shape (heap s ! x) = [batch, steps, d_in]"
  shows "\<exists>out s' h y z.
           PositionWiseFeedForward_forward F x s = (Inr out, s') \<and>
           linear (linear_1 F) (heap s ! x) = Inr h \<and>
           linear (linear_2 F) (relu h) = Inr y \<and>
           add (dropout_value (ffn_dropout F) (noise s (rng s)) y) (heap s ! x) = Inr z \<and>
           layer_norm (ffn_layer_norm F) z = Inr (heap s' ! out) \<and>
           eps (ffn_layer_norm F) = 1 / 1000000 \<and>
           shape (heap s' ! out) = [batch, steps, d_in] \<and>
           heap s' ! x = heap s ! x"
proof -
  have wf: "FFN_wf d_in F" and e: "eps (ffn_layer_norm F) = 1 / 1000000"
    using FFN_init_wf [OF init, of mode] F by simp_all
  have sh': "shape (heap s ! x) = [batch, steps] @ [d_in]" using sh by simp
  obtain h y z t where v: "linear (linear_1 F) (heap s ! x) = Inr h"
    "linear (linear_2 F) (relu h) = Inr y"
    "add (dropout_value (ffn_dropout F) (noise s (rng s)) y) (heap s ! x) = Inr z"
    "layer_norm (ffn_layer_norm F) z = Inr t" "shape t = shape (heap s ! x)"
    "FFN_value F (noise s (rng s)) (heap s ! x) = Inr t"
    using FFN_ok [OF wf sh', of "noise s (rng s)"] by blast
  obtain r s' where r: "PositionWiseFeedForward_forward F x s = (r, s')"
    "post1 1 s (FFN_value F (noise s (rng s)) (heap s ! x)) r s'"
    using run_fst [OF FFN_run [OF x, of F]] by blast
  from r(2) v(6) obtain out where out: "r = Inr out" "heap s' ! out = t"
    by (cases r) (simp_all add: post1_def)
  have "heap s' ! x = heap s ! x"
    using r(2) x by (simp add: post1_def frame_def)
  then show ?thesis
    using r(1) out v e sh by auto
qed


definition zero_params :: params where
  "zero_params = (\<lambda>_ _ _. 0)"

definition example_state :: state where
  "example_state = \<lparr>heap = [tab [1, 1, 1] (\<lambda>_. 0)], rng = 0, noise = (\<lambda>_ _. True)\<rparr>"

definition ramp_params :: params where
  "ramp_params = (\<lambda>name i j. real (length name) + real i - 2 * real j)"

definition ramp_state :: state where
  "ramp_state =
     \<lparr>heap = [tab [1, 2, 2] (\<lambda>idx. real (Suc (idx ! 1 + 2 * idx ! 2)))],
      rng = 0, noise = (\<lambda>c i. even (c + i))\<rparr>"

lemma ramp_state_facts:
  "0 < length (heap ramp_state)" "shape (heap ramp_state ! 0) = [1, 2, 2]"
  "elem (heap ramp_state ! 0) [0, 1, 1] = 4"
    apply (simp add: ramp_state_def)
   apply (simp add: ramp_state_def tab_def)
  apply (simp add: ramp_state_def elem_tab valid_idx_def)
  done

lemma FFN_init_dropout:
  "PositionWiseFeedForward_init d_in d_hid p \<theta> = Inr F \<Longrightarrow>
   ffn_dropout (PositionWiseFeedForward_train mode F) = \<lparr>dropout_p = p, training = mode\<rparr>"
  by (auto simp: PositionWiseFeedForward_init_def PositionWiseFeedForward_train_def
      Dropout_init_def Dropout_train_def bindE_def split: sum.splits if_splits)

theorem PositionWiseFeedForward_forward_spec_witness:
  "\<exists>F0 F out s' h y z.
     PositionWiseFeedForward_init 2 3 (1 / 2) ramp_params = Inr F0 \<and>
     F = PositionWiseFeedForward_train True F0 \<and>
     shape (heap ramp_state ! 0) = [1, 2, 2] \<and>
     elem (heap ramp_state ! 0) [0, 1, 1] = 4 \<and>
     PositionWiseFeedForward_forward F 0 ramp_state = (Inr out, s') \<and>
     linear (linear_1 F) (heap ramp_state ! 0) = Inr h \<and>
     linear (linear_2 F) (relu h) = Inr y \<and>
     dropout_active (ffn_dropout F) y \<and>
     elem (dropout_value (ffn_dropout F) (noise ramp_state (rng ramp_state)) y) [0, 0, 0]
       = 2 * elem y [0, 0, 0] \<and>
     elem (dropout_value (ffn_dropout F) (noise ramp_state (rng ramp_state)) y) [0, 0, 1] = 0 \<and>
     add (dropout_value (ffn_dropout F) (noise ramp_state (rng ramp_state)) y)
       (heap ramp_state ! 0) = Inr z \<and>
     layer_norm (ffn_layer_norm F) z = Inr (heap s' ! out) \<and>
     eps (ffn_layer_norm F) = 1 / 1000000 \<and>
     shape (heap s' ! out) = [1, 2, 2] \<and>
     heap s' ! 0 = heap ramp_state ! 0"
proof -
  obtain F0 where i: "PositionWiseFeedForward_init 2 3 (1 / 2) ramp_params = Inr F0"
    by (simp add: PositionWiseFeedForward_init_def Dropout_init_def bindE_def)
  let ?F = "PositionWiseFeedForward_train True F0"
  obtain out s' h y z where r:
    "PositionWiseFeedForward_forward ?F 0 ramp_state = (Inr out, s')"
    "linear (linear_1 ?F) (heap ramp_state ! 0) = Inr h"
    "linear (linear_2 ?F) (relu h) = Inr y"
    "add (dropout_value (ffn_dropout ?F) (noise ramp_state (rng ramp_state)) y)
       (heap ramp_state ! 0) = Inr z"
    "layer_norm (ffn_layer_norm ?F) z = Inr (heap s' ! out)"
    "eps (ffn_layer_norm ?F) = 1 / 1000000"
    "shape (heap s' ! out) = [1, 2, 2]"
    "heap s' ! 0 = heap ramp_state ! 0"
    using PositionWiseFeedForward_forward_spec [OF i refl ramp_state_facts(1,2)] by blast
  have wf: "FFN_wf 2 ?F" using FFN_init_wf [OF i, of True] by simp
  have "shape h = [1, 2] @ [out_features (linear_1 ?F)]"
    using linear_ex [of "heap ramp_state ! 0" "[1, 2]" "linear_1 ?F"] r(2) wf ramp_state_facts(2)
    by (auto simp: FFN_wf_def)
  then have sy: "shape y = [1, 2] @ [2]"
    using linear_ex [of "relu h" "[1, 2]" "linear_2 ?F"] r(3) wf by (auto simp: FFN_wf_def)
  then have ly: "length (data y) = 4"
    using r(3) by (auto simp: linear_def tab_def split: if_splits)
  have act: "dropout_active (ffn_dropout ?F) y"
    using FFN_init_dropout [OF i, of True] sy by (simp add: dropout_active_def numel_def)
  have d0: "elem (dropout_value (ffn_dropout ?F) (noise ramp_state (rng ramp_state)) y) [0, 0, 0]
      = 2 * elem y [0, 0, 0]"
    using act sy ly FFN_init_dropout [OF i, of True]
    by (simp add: dropout_value_def dropout_noise_def elem_def ramp_state_def)
  have d1: "elem (dropout_value (ffn_dropout ?F) (noise ramp_state (rng ramp_state)) y) [0, 0, 1]
      = 0"
    using act sy ly FFN_init_dropout [OF i, of True]
    by (simp add: dropout_value_def dropout_noise_def elem_def ramp_state_def)
  show ?thesis
    using i r ramp_state_facts(2,3) act d0 d1 by blast
qed

text \<open>
  Claim C4. For a multi-head attention block as constructed (in training or evaluation
  mode), \<open>q\<close>, \<open>k\<close>, \<open>v\<close> of shape \<open>[batch, steps, d_model]\<close> with at least one
  position, and no mask or a mask that, with the axis of the heads inserted, broadcasts
  to \<open>[batch, n_heads, steps, steps]\<close>, the call returns a new tensor equal to
  \<open>LayerNorm(dropout(fc(merged_heads)) + q)\<close>, where \<open>q\<close> is the value of the argument
  before the call, before any projection; the layer normalisation, over the last axis,
  has epsilon \<open>1e-6\<close>; the argument object still holds \<open>q\<close> after the call.
\<close>

theorem MultiHeadAttention_forward_spec:
  assumes init: "MultiHeadAttention_init n_heads d_model dk dv p pa \<theta> = Inr M0"
    and M: "M = MultiHeadAttention_train mode M0"
    and refs: "q < length (heap s)" "k < length (heap s)" "v < length (heap s)"
      "valid_ref s attn_mask"
    and shq: "shape (heap s ! q) = [batch, steps, d_model]"
    and shk: "shape (heap s ! k) = [batch, steps, d_model]"
    and shv: "shape (heap s ! v) = [batch, steps, d_model]"
    and pos: "0 < batch" "0 < steps"
    and shm: "\<And>m. deref s attn_mask = Some m \<Longrightarrow>
                shape m \<noteq> [] \<and>
                broadcast_shapes [batch, n_heads, steps, steps] (hd (shape m) # 1 # tl (shape m))
                  = Some [batch, n_heads, steps, steps]"
  shows "\<exists>out attn s' merged y z.
           MultiHeadAttention_forward M q k v attn_mask s = (Inr (out, attn), s') \<and>
           merged_heads M (noise s (rng s)) (heap s ! q) (heap s ! k) (heap s ! v)
             (deref s attn_mask) = Inr (merged, heap s' ! attn) \<and>
           linear (fc M) merged = Inr y \<and>
           add (dropout_value (mha_dropout M) (noise s (Suc (rng s))) y) (heap s ! q) = Inr z \<and>
           layer_norm (mha_layer_norm M) z = Inr (heap s' ! out) \<and>
           eps (mha_layer_norm M) = 1 / 1000000 \<and>
           shape (heap s' ! out) = [batch, steps, d_model] \<and>
           heap s' ! q = heap s ! q"
proof -
  let ?val = "MHA_value M (noise s) (rng s) (heap s ! q) (heap s ! k) (heap s ! v)
                (deref s attn_mask)"
  have wf: "MHA_wf d_model M" and e: "eps (mha_layer_norm M) = 1 / 1000000"
    and hd: "n_head M = n_heads"
    using MHA_init_wf [OF init, of mode] M by simp_all
  have shk': "shape (heap s ! k) = [batch, steps] @ [d_model]"
    and shv': "shape (heap s ! v) = [batch, steps] @ [d_model]"
    using shk shv by simp_all
  have m: "\<And>m. deref s attn_mask = Some m \<Longrightarrow>
             shape m \<noteq> [] \<and>
             broadcast_shapes [batch, n_head M, steps, steps] (hd (shape m) # 1 # tl (shape m))
               = Some [batch, n_head M, steps, steps]"
    using shm by (simp add: hd)
  have "\<exists>out w. ?val = Inr (out, w) \<and> shape out = [batch, steps, d_model] \<and>
          shape w = [batch, n_head M, steps, steps]"
    apply (rule MHA_ok [OF wf shq shk' _ shv' _ pos])
      apply simp
     apply simp
    apply (erule m)
    done
  then obtain t w where ok: "?val = Inr (t, w)" "shape t = [batch, steps, d_model]"
    by blast
  then obtain merged where mg:
    "merged_heads M (noise s (rng s)) (heap s ! q) (heap s ! k) (heap s ! v) (deref s attn_mask)
       = Inr (merged, w)"
    by (auto simp: MHA_value_def bindE_def split: sum.splits)
  then obtain y z where yz: "linear (fc M) merged = Inr y"
    "add_inplace (dropout_value (mha_dropout M) (noise s (Suc (rng s))) y) (heap s ! q) = Inr z"
    "layer_norm (mha_layer_norm M) z = Inr t"
    using ok(1) by (auto simp: MHA_value_def bindE_def split: sum.splits)
  have "add (dropout_value (mha_dropout M) (noise s (Suc (rng s))) y) (heap s ! q) = Inr z"
    using yz(2) by (simp add: add_inplace_def split: if_splits)
  moreover obtain r s' where r: "MultiHeadAttention_forward M q k v attn_mask s = (r, s')"
    "post2 2 s ?val r s'"
    using run_fst [OF MHA_run [OF refs, of M]] by blast
  moreover from r(2) ok(1) obtain out attn where out: "r = Inr (out, attn)" "heap s' ! out = t"
    "heap s' ! attn = w"
    by (cases r) (auto simp: post2_def)
  moreover have "heap s' ! q = heap s ! q"
    using r(2) refs(1) by (simp add: post2_def frame_def)
  ultimately show ?thesis
    using mg yz e ok(2) by auto
qed

definition attention_state :: state where
  "attention_state =
     \<lparr>heap = [tab [2, 3, 4] (\<lambda>idx. real (Suc (idx ! 0 + idx ! 1 + idx ! 2))),
              tab [2, 3, 4] (\<lambda>idx. real (idx ! 2) - real (idx ! 1)),
              tab [2, 3, 4] (\<lambda>idx. 2 * real (idx ! 0) + 1),
              tab [2, 3, 3] (\<lambda>idx. if idx ! 1 < idx ! 2 then 1 else 0)],
      rng = 0, noise = (\<lambda>c i. even (c + i))\<rparr>"

lemma attention_state_shapes:
  "length (heap attention_state) = 4"
  "shape (heap attention_state ! 0) = [2, 3, 4]"
  "shape (heap attention_state ! 1) = [2, 3, 4]"
  "shape (heap attention_state ! 2) = [2, 3, 4]"
  "shape (heap attention_state ! 3) = [2, 3, 3]"
  by (simp_all add: attention_state_def tab_def)

lemma attention_state_elems:
  "elem (heap attention_state ! 0) [1, 2, 3] = 7"
  "elem (heap attention_state ! 1) [1, 2, 3] = 1"
  "elem (heap attention_state ! 2) [1, 2, 3] = 3"
  "elem (heap attention_state ! 3) [1, 0, 2] = 1"
  "elem (heap attention_state ! 3) [1, 2, 0] = 0"
  by (simp_all add: attention_state_def elem_tab valid_idx_def)

lemma MHA_init_dropout:
  "MultiHeadAttention_init n_heads d_model dk dv p pa \<theta> = Inr M \<Longrightarrow>
   mha_dropout (MultiHeadAttention_train mode M) = \<lparr>dropout_p = p, training = mode\<rparr> \<and>
   sdpa_dropout (attention (MultiHeadAttention_train mode M))
     = \<lparr>dropout_p = pa, training = mode\<rparr>"
  by (auto simp: MultiHeadAttention_init_def MultiHeadAttention_train_def
      ScaledDotProductAttention_init_def ScaledDotProductAttention_train_def
      Dropout_init_def Dropout_train_def bindE_def split: sum.splits if_splits)

theorem MultiHeadAttention_forward_spec_witness:
  "\<exists>M0 M out attn s' merged y z.
     MultiHeadAttention_init 2 4 3 5 (1 / 2) (1 / 2) ramp_params = Inr M0 \<and>
     M = MultiHeadAttention_train True M0 \<and>
     shape (heap attention_state ! 0) = [2, 3, 4] \<and>
     shape (heap attention_state ! 1) = [2, 3, 4] \<and>
     shape (heap attention_state ! 2) = [2, 3, 4] \<and>
     shape (heap attention_state ! 3) = [2, 3, 3] \<and>
     elem (heap attention_state ! 0) [1, 2, 3] = 7 \<and>
     elem (heap attention_state ! 1) [1, 2, 3] = 1 \<and>
     elem (heap attention_state ! 2) [1, 2, 3] = 3 \<and>
     elem (heap attention_state ! 3) [1, 0, 2] = 1 \<and>
     elem (heap attention_state ! 3) [1, 2, 0] = 0 \<and>
     MultiHeadAttention_forward M 0 1 2 (Some 3) attention_state = (Inr (out, attn), s') \<and>
     merged_heads M (noise attention_state (rng attention_state)) (heap attention_state ! 0)
       (heap attention_state ! 1) (heap attention_state ! 2) (Some (heap attention_state ! 3))
       = Inr (merged, heap s' ! attn) \<and>
     sdpa_dropout (attention M) = \<lparr>dropout_p = 1 / 2, training = True\<rparr> \<and>
     linear (fc M) merged = Inr y \<and>
     dropout_active (mha_dropout M) y \<and>
     elem (dropout_value (mha_dropout M) (noise attention_state (Suc (rng attention_state))) y)
       [0, 0, 0] = 0 \<and>
     elem (dropout_value (mha_dropout M) (noise attention_state (Suc (rng attention_state))) y)
       [0, 0, 1] = 2 * elem y [0, 0, 1] \<and>
     add (dropout_value (mha_dropout M) (noise attention_state (Suc (rng attention_state))) y)
       (heap attention_state ! 0) = Inr z \<and>
     layer_norm (mha_layer_norm M) z = Inr (heap s' ! out) \<and>
     eps (mha_layer_norm M) = 1 / 1000000 \<and>
     shape (heap s' ! out) = [2, 3, 4] \<and>
     heap s' ! 0 = heap attention_state ! 0"
proof -
  obtain M0 where i: "MultiHeadAttention_init 2 4 3 5 (1 / 2) (1 / 2) ramp_params = Inr M0"
    by (simp add: MultiHeadAttention_init_def ScaledDotProductAttention_init_def Dropout_init_def
        bindE_def)
  let ?M = "MultiHeadAttention_train True M0"
  let ?s = attention_state
  have refs: "0 < length (heap ?s)" "1 < length (heap ?s)" "2 < length (heap ?s)"
    "valid_ref ?s (Some 3)"
    by (simp_all add: attention_state_shapes valid_ref_def)
  have dm: "deref ?s (Some 3) = Some (heap ?s ! 3)" by (simp add: deref_def)
  have "\<exists>out attn s' merged y z.
           MultiHeadAttention_forward ?M 0 1 2 (Some 3) ?s = (Inr (out, attn), s') \<and>
           merged_heads ?M (noise ?s (rng ?s)) (heap ?s ! 0) (heap ?s ! 1) (heap ?s ! 2)
             (deref ?s (Some 3)) = Inr (merged, heap s' ! attn) \<and>
           linear (fc ?M) merged = Inr y \<and>
           add (dropout_value (mha_dropout ?M) (noise ?s (Suc (rng ?s))) y) (heap ?s ! 0)
             = Inr z \<and>
           layer_norm (mha_layer_norm ?M) z = Inr (heap s' ! out) \<and>
           eps (mha_layer_norm ?M) = 1 / 1000000 \<and>
           shape (heap s' ! out) = [2, 3, 4] \<and>
           heap s' ! 0 = heap ?s ! 0"
    by (rule MultiHeadAttention_forward_spec [OF i refl refs attention_state_shapes(2,3,4)])
       (simp_all add: dm attention_state_shapes broadcast_shapes_def)
  then obtain out attn s' merged y z where r:
    "MultiHeadAttention_forward ?M 0 1 2 (Some 3) ?s = (Inr (out, attn), s')"
    "merged_heads ?M (noise ?s (rng ?s)) (heap ?s ! 0) (heap ?s ! 1) (heap ?s ! 2)
       (Some (heap ?s ! 3)) = Inr (merged, heap s' ! attn)"
    "linear (fc ?M) merged = Inr y"
    "add (dropout_value (mha_dropout ?M) (noise ?s (Suc (rng ?s))) y) (heap ?s ! 0) = Inr z"
    "layer_norm (mha_layer_norm ?M) z = Inr (heap s' ! out)"
    "eps (mha_layer_norm ?M) = 1 / 1000000"
    "shape (heap s' ! out) = [2, 3, 4]"
    "heap s' ! 0 = heap ?s ! 0"
    unfolding dm by blast
  have wf: "MHA_wf 4 ?M" and hd: "n_head ?M = 2" "d_v ?M = 5"
    using MHA_init_wf [OF i, of True] by simp_all
  have k: "shape (heap ?s ! 1) = [2, 3] @ [4]" and v: "shape (heap ?s ! 2) = [2, 3] @ [4]"
    using attention_state_shapes by simp_all
  have "\<exists>mg w. merged_heads ?M (noise ?s (rng ?s)) (heap ?s ! 0) (heap ?s ! 1) (heap ?s ! 2)
           (Some (heap ?s ! 3)) = Inr (mg, w) \<and>
         shape mg = [2, 3, n_head ?M * d_v ?M] \<and> shape w = [2, n_head ?M, 3, 3]"
    by (rule merged_heads_ok [OF wf attention_state_shapes(2) k _ v])
       (simp_all add: attention_state_shapes hd broadcast_shapes_def)
  then have sm: "shape merged = [2, 3] @ [10]"
    using r(2) hd by auto
  have sy: "shape y = [2, 3] @ [4]"
    using linear_ex [of merged "[2, 3]" "fc ?M"] sm r(3) wf hd by (auto simp: MHA_wf_def)
  then have ly: "length (data y) = 24"
    using r(3) by (auto simp: linear_def tab_def split: if_splits)
  have act: "dropout_active (mha_dropout ?M) y"
    using MHA_init_dropout [OF i, of True] sy by (simp add: dropout_active_def numel_def)
  have d0: "elem (dropout_value (mha_dropout ?M) (noise ?s (Suc (rng ?s))) y) [0, 0, 0] = 0"
    using act sy ly MHA_init_dropout [OF i, of True]
    by (simp add: dropout_value_def dropout_noise_def elem_def attention_state_def)
  have d1: "elem (dropout_value (mha_dropout ?M) (noise ?s (Suc (rng ?s))) y) [0, 0, 1]
      = 2 * elem y [0, 0, 1]"
    using act sy ly MHA_init_dropout [OF i, of True]
    by (simp add: dropout_value_def dropout_noise_def elem_def attention_state_def)
  have sd: "sdpa_dropout (attention ?M) = \<lparr>dropout_p = 1 / 2, training = True\<rparr>"
    using MHA_init_dropout [OF i, of True] by simp
  show ?thesis
    using i r attention_state_shapes(2,3,4,5) attention_state_elems act d0 d1 sd by blast
qed

subsection \<open>Computations that only allocate\<close>

definition preserves :: "'a st \<Rightarrow> bool" where
  "preserves m =
     (\<forall>s. length (heap s) \<le> length (heap (snd (m s))) \<and>
          (\<forall>a<length (heap s). heap (snd (m s)) ! a = heap s ! a))"

lemma preserves_return [simp]: "preserves (return x)"
  by (simp add: preserves_def return_def)

lemma preserves_raise [simp]: "preserves (raise e)"
  by (simp add: preserves_def raise_def)

lemma preserves_lift [simp]: "preserves (lift r)"
  by (simp add: preserves_def lift_def)

lemma preserves_load [simp]: "preserves (load a)"
  by (simp add: preserves_def load_def)

lemma preserves_alloc [simp]: "preserves (alloc t)"
  by (simp add: preserves_def alloc_def nth_append)

lemma preserves_next_draw [simp]: "preserves next_draw"
  by (simp add: preserves_def next_draw_def)

lemma preserves_bnd:
  assumes "preserves m" and "\<And>x. preserves (f x)"
  shows "preserves (bnd m f)"
  unfolding preserves_def
proof (intro allI conjI impI)
  fix s
  obtain r s1 where ms: "m s = (r, s1)" by (cases "m s")
  have l1: "length (heap s) \<le> length (heap s1)"
    and n1: "\<And>a. a < length (heap s) \<Longrightarrow> heap s1 ! a = heap s ! a"
    using assms(1) ms by (auto simp: preserves_def dest: spec [of _ s])
  show "length (heap s) \<le> length (heap (snd (bnd m f s)))"
  proof (cases r)
    case (Inl e)
    then show ?thesis using ms l1 by (simp add: bnd_def)
  next
    case (Inr x)
    have "length (heap s1) \<le> length (heap (snd (f x s1)))"
      using assms(2) [of x] by (simp add: preserves_def)
    then show ?thesis using Inr ms l1 by (simp add: bnd_def)
  qed
  fix a assume a: "a < length (heap s)"
  show "heap (snd (bnd m f s)) ! a = heap s ! a"
  proof (cases r)
    case (Inl e)
    then show ?thesis using ms n1 [OF a] by (simp add: bnd_def)
  next
    case (Inr x)
    have "heap (snd (f x s1)) ! a = heap s1 ! a"
      using assms(2) [of x] a l1 by (simp add: preserves_def)
    then show ?thesis using Inr ms n1 [OF a] by (simp add: bnd_def)
  qed
qed

lemma preserves_op1 [simp]: "preserves (op1 f a)"
  unfolding op1_def by (intro preserves_bnd) simp_all

lemma preserves_op2 [simp]: "preserves (op2 f a b)"
  unfolding op2_def by (intro preserves_bnd) simp_all

lemma preserves_size_st [simp]: "preserves (size_st a d)"
  unfolding size_st_def by (intro preserves_bnd) simp_all

lemma preserves_Dropout [simp]: "preserves (Dropout_forward D a)"
  unfolding Dropout_forward_def by (intro preserves_bnd) simp_all

lemma preserves_PositionalEncoding [simp]: "preserves (PositionalEncoding_forward P x)"
  unfolding PositionalEncoding_forward_def by (intro preserves_bnd) simp_all

lemma Decoder_forward_eq:
  "Decoder_forward D trg_seq enc_output trg_mask src_mask return_attn_weights =
     bnd (Linear_forward (dec_embedding D) trg_seq) (\<lambda>trg_seq.
     bnd (PositionalEncoding_forward (dec_position_enc D) trg_seq) (\<lambda>pe.
     bnd (Dropout_forward (dec_dropout D) pe) (\<lambda>dec_output.
     raise (AttributeError ''layer_stack''))))"
  unfolding Decoder_forward_def Decoder_getattr_layer_stack
  by (simp add: bnd_def lift_def raise_def)

lemma preserves_Decoder_forward:
  "preserves (Decoder_forward D trg_seq enc_output trg_mask src_mask return_attn_weights)"
  unfolding Decoder_forward_eq Linear_forward_def by (intro preserves_bnd) simp_all

text \<open>
  Claim C9. A decoder forward call leaves the encoder-output tensor unchanged: its
  contents after the call equal its contents before. This holds of the cross-attention
  call itself (\<^verbatim>\<open>MultiHeadAttention.forward\<close> with the encoder output as key and
  value, whose only in-place update is to the new tensor that \<^verbatim>\<open>fc\<close> or dropout
  returned), of \<^verbatim>\<open>DecoderLayer.forward\<close> and of \<^verbatim>\<open>Decoder.forward\<close>, whether the call
  returns or raises.
\<close>

theorem decoder_calls_keep_enc_output:
  assumes "enc_output < length (heap s)"
  shows "(dec_output < length (heap s) \<and> valid_ref s dec_enc_attn_mask \<longrightarrow>
            heap (snd (MultiHeadAttention_forward M dec_output enc_output enc_output
                         dec_enc_attn_mask s)) ! enc_output = heap s ! enc_output) \<and>
         heap (snd (DecoderLayer_forward L dec_input enc_output slf_attn_mask dec_enc_attn_mask s))
           ! enc_output = heap s ! enc_output \<and>
         heap (snd (Decoder_forward D trg_seq enc_output trg_mask src_mask return_attn_weights s))
           ! enc_output = heap s ! enc_output"
proof (intro conjI impI)
  assume "dec_output < length (heap s) \<and> valid_ref s dec_enc_attn_mask"
  then obtain r s' where
    "MultiHeadAttention_forward M dec_output enc_output enc_output dec_enc_attn_mask s = (r, s')"
    "frame (length (heap s)) s s'"
    using run_fst [OF MHA_run [of dec_output s enc_output enc_output dec_enc_attn_mask M]] assms
    by (auto simp: post2_def)
  then show "heap (snd (MultiHeadAttention_forward M dec_output enc_output enc_output
                         dec_enc_attn_mask s)) ! enc_output = heap s ! enc_output"
    using assms by (simp add: frame_def)
next
  show "heap (snd (DecoderLayer_forward L dec_input enc_output slf_attn_mask dec_enc_attn_mask s))
           ! enc_output = heap s ! enc_output"
    by (simp add: DecoderLayer_forward_def MultiHeadAttention_call_def bnd_def lift_def
        bind_args_mask)
next
  show "heap (snd (Decoder_forward D trg_seq enc_output trg_mask src_mask return_attn_weights s))
           ! enc_output = heap s ! enc_output"
    using preserves_Decoder_forward [of D trg_seq enc_output trg_mask src_mask return_attn_weights]
      assms
    by (simp add: preserves_def)
qed


definition example_mha :: MultiHeadAttention where
  "example_mha = projr (MultiHeadAttention_init 1 1 1 1 0 0 zero_params)"

definition example_decoder_layer :: DecoderLayer where
  "example_decoder_layer = projr (DecoderLayer_init 1 1 1 1 1 0 0 zero_params)"

definition example_decoder :: Decoder where
  "example_decoder =
     projr (fst (Decoder_init 1 1 1 1 1 1 1 1 0 0 zero_params (\<lambda>_. zero_params) example_state))"

definition example_decoder_state :: state where
  "example_decoder_state =
     snd (Decoder_init 1 1 1 1 1 1 1 1 0 0 zero_params (\<lambda>_. zero_params) example_state)"

lemma example_mha_init: "MultiHeadAttention_init 1 1 1 1 0 0 zero_params = Inr example_mha"
  by (simp add: example_mha_def MultiHeadAttention_init_def ScaledDotProductAttention_init_def
      Dropout_init_def bindE_def)

lemma example_decoder_state_heap: "length (heap example_decoder_state) = 2"
  by (simp add: example_decoder_state_def Decoder_init_def PositionalEncoding_init_def
      get_sinusoid_encoding_table_def Dropout_init_def bnd_def lift_def alloc_def return_def
      example_state_def unsqueeze_def Let_def split: sum.splits)

theorem decoder_calls_keep_enc_output_witness:
  "0 < length (heap example_decoder_state) \<and>
   heap (snd (MultiHeadAttention_forward example_mha 0 0 0 None example_decoder_state)) ! 0
     = heap example_decoder_state ! 0 \<and>
   heap (snd (DecoderLayer_forward example_decoder_layer 0 0 None None example_decoder_state)) ! 0
     = heap example_decoder_state ! 0 \<and>
   heap (snd (Decoder_forward example_decoder 0 0 None None False example_decoder_state)) ! 0
     = heap example_decoder_state ! 0"
  using decoder_calls_keep_enc_output [of 0 example_decoder_state 0 None example_mha
      example_decoder_layer 0 None example_decoder 0 None None False]
  by (simp add: example_decoder_state_heap valid_ref_def)

section \<open>Reshaping the keys and values\<close>

definition cross_state :: state where
  "cross_state =
     \<lparr>heap = [tab [2, 1, 1] (\<lambda>_. 0), tab [1, 2, 1] (\<lambda>_. 0)], rng = 0, noise = (\<lambda>_ _. True)\<rparr>"

lemma MHA_train_True:
  "MultiHeadAttention_init n_heads d_model dk dv p pa \<theta> = Inr M \<Longrightarrow>
   MultiHeadAttention_train True M = M"
  by (auto simp: MultiHeadAttention_train_def ScaledDotProductAttention_train_def
      Dropout_train_def MultiHeadAttention_init_def ScaledDotProductAttention_init_def
      Dropout_init_def bindE_def split: if_splits)

lemma example_mha_wf: "MHA_wf 1 example_mha"
  using MHA_init_wf [OF example_mha_init, of True] MHA_train_True [OF example_mha_init] by simp

lemma example_mha_heads: "n_head example_mha = 1" "d_k example_mha = 1" "d_v example_mha = 1"
  using MHA_init_wf [OF example_mha_init, of True] MHA_train_True [OF example_mha_init]
  by simp_all

lemma cross_state_shapes:
  "length (heap cross_state) = 2"
  "shape (heap cross_state ! 0) = [2, 1, 1]" "shape (heap cross_state ! 1) = [1, 2, 1]"
  by (simp_all add: cross_state_def)

lemma cross_call_returns:
  "\<not> isl (fst (MultiHeadAttention_forward example_mha 0 1 1 None cross_state))"
proof -
  let ?val = "MHA_value example_mha (noise cross_state) (rng cross_state)
                (heap cross_state ! 0) (heap cross_state ! 1) (heap cross_state ! 1) None"
  have k: "shape (heap cross_state ! 1) = [1, 2] @ [1]"
    using cross_state_shapes(3) by simp
  have "\<exists>out w. ?val = Inr (out, w) \<and> shape out = [2, 1, 1] \<and>
          shape w = [2, n_head example_mha, 1, 1]"
    by (rule MHA_ok [OF example_mha_wf cross_state_shapes(2) k _ k]) simp_all
  then obtain t w where ok: "?val = Inr (t, w)" by blast
  obtain r s' where r: "MultiHeadAttention_forward example_mha 0 1 1 None cross_state = (r, s')"
    "post2 2 cross_state ?val r s'"
    using run_fst [OF MHA_run [of 0 cross_state 1 1 None example_mha]]
    by (auto simp: cross_state_shapes valid_ref_def deref_def)
  with ok show ?thesis by (cases r) (simp_all add: post2_def)
qed

text \<open>
  Claim C10 says that a successful call of \<^verbatim>\<open>MultiHeadAttention.forward\<close> requires \<open>k\<close>
  and \<open>v\<close> to have the batch size and the number of steps of \<open>q\<close>. The reshape is a
  \<^verbatim>\<open>view\<close>, which compares element counts only: with \<open>q\<close> of shape \<open>[2, 1, 1]\<close> and
  \<open>k = v\<close> of shape \<open>[1, 2, 1]\<close> (another batch size, another number of steps) the
  call returns.
\<close>

theorem cross_attention_lengths_counterexample:
  "MultiHeadAttention_init 1 1 1 1 0 0 zero_params = Inr example_mha \<and>
   shape (heap cross_state ! 0) = [2, 1, 1] \<and>
   shape (heap cross_state ! 1) = [1, 2, 1] \<and>
   \<not> isl (fst (MultiHeadAttention_forward example_mha 0 1 1 None cross_state))"
  using example_mha_init cross_state_shapes cross_call_returns by simp

text \<open>
  Claim C10, as the code has it. The projected \<open>k\<close> and \<open>v\<close> are reshaped with the batch
  size and the number of steps of \<open>q\<close>, so a call that returns has
  \<open>batch_k * steps_k * (n_heads * d_k) = batch_q * steps_q * (n_heads * d_k)\<close>, and the
  same for \<open>v\<close> with \<open>d_v\<close>. In particular, when \<open>k\<close> has the batch size of \<open>q\<close>, which
  is not 0, and \<open>n_heads * d_k\<close> is not 0, a call that returns has \<open>steps_k = steps_q\<close>:
  a different number of steps of the keys is an error. Likewise, when \<open>v\<close> has the batch
  size of \<open>q\<close>, which is not 0, and \<open>n_heads * d_v\<close> is not 0, a call that returns has
  \<open>steps_v = steps_q\<close>: a different number of steps of the values is an error.
\<close>

theorem MultiHeadAttention_forward_element_counts:
  assumes init: "MultiHeadAttention_init n_heads d_model dk dv p pa \<theta> = Inr M0"
    and M: "M = MultiHeadAttention_train mode M0"
    and refs: "q < length (heap s)" "k < length (heap s)" "v < length (heap s)"
      "valid_ref s attn_mask"
    and shq: "shape (heap s ! q) = [B, S, d_model]"
    and shk: "shape (heap s ! k) = [Bk, Sk, d_model]"
    and shv: "shape (heap s ! v) = [Bv, Sv, d_model]"
    and ret: "MultiHeadAttention_forward M q k v attn_mask s = (Inr r, s')"
  shows "Bk * Sk * (n_heads * dk) = B * S * (n_heads * dk) \<and>
         Bv * Sv * (n_heads * dv) = B * S * (n_heads * dv) \<and>
         (Bk = B \<and> 0 < B \<and> 0 < n_heads * dk \<longrightarrow> Sk = S) \<and>
         (Bv = B \<and> 0 < B \<and> 0 < n_heads * dv \<longrightarrow> Sv = S)"
proof -
  let ?qv = "heap s ! q" and ?kv = "heap s ! k" and ?vv = "heap s ! v"
  have wf: "MHA_wf d_model M" and hd: "n_head M = n_heads" "d_k M = dk" "d_v M = dv"
    using MHA_init_wf [OF init, of mode] M by simp_all
  obtain t w where val: "MHA_value M (noise s) (rng s) ?qv ?kv ?vv (deref s attn_mask) = Inr (t, w)"
    using run_fst [OF MHA_run [OF refs, of M]] ret by (auto simp: post2_def)
  then obtain mg where mg: "merged_heads M (noise s (rng s)) ?qv ?kv ?vv (deref s attn_mask)
      = Inr (mg, w)"
    by (auto simp: MHA_value_def bindE_def split: sum.splits)
  have s0: "size_dim ?qv 0 = Inr B" "size_dim ?qv (Suc 0) = Inr S"
    using shq by (simp_all add: size_dim_def)
  obtain q1 where q1: "linear (w_qs M) ?qv = Inr q1"
    using mg unfolding merged_heads_def by (cases "linear (w_qs M) ?qv") (simp_all add: bindE_def s0)
  obtain q2 where q2: "view q1 [B, S, n_heads, dk] = Inr q2"
    using mg unfolding merged_heads_def
    by (cases "view q1 [B, S, n_heads, dk]") (simp_all add: bindE_def s0 q1 hd)
  obtain k1 where k1: "linear (w_ks M) ?kv = Inr k1"
    using mg unfolding merged_heads_def
    by (cases "linear (w_ks M) ?kv") (simp_all add: bindE_def s0 q1 q2 hd)
  obtain k2 where k2: "view k1 [B, S, n_heads, dk] = Inr k2"
    using mg unfolding merged_heads_def
    by (cases "view k1 [B, S, n_heads, dk]") (simp_all add: bindE_def s0 q1 q2 k1 hd)
  obtain v1 where v1: "linear (w_vs M) ?vv = Inr v1"
    using mg unfolding merged_heads_def
    by (cases "linear (w_vs M) ?vv") (simp_all add: bindE_def s0 q1 q2 k1 k2 hd)
  obtain v2 where v2: "view v1 [B, S, n_heads, dv] = Inr v2"
    using mg unfolding merged_heads_def
    by (cases "view v1 [B, S, n_heads, dv]") (simp_all add: bindE_def s0 q1 q2 k1 k2 v1 hd)
  have "shape k1 = [Bk, Sk] @ [n_heads * dk]"
    using linear_ex [of ?kv "[Bk, Sk]" "w_ks M"] shk wf k1 hd by (auto simp: MHA_wf_def)
  then have ek: "Bk * Sk * (n_heads * dk) = B * S * (n_heads * dk)"
    using k2 by (auto simp: view_def numel_def split: if_splits)
  have "shape v1 = [Bv, Sv] @ [n_heads * dv]"
    using linear_ex [of ?vv "[Bv, Sv]" "w_vs M"] shv wf v1 hd by (auto simp: MHA_wf_def)
  then have ev: "Bv * Sv * (n_heads * dv) = B * S * (n_heads * dv)"
    using v2 by (auto simp: view_def numel_def split: if_splits)
  show ?thesis using ek ev by auto
qed

lemma attention_call_returns:
  assumes i: "MultiHeadAttention_init 2 4 3 5 (1 / 2) (1 / 2) ramp_params = Inr M0"
  shows "\<exists>r s'. MultiHeadAttention_forward (MultiHeadAttention_train True M0) 0 1 2 (Some 3)
                   attention_state = (Inr r, s')"
proof -
  let ?M = "MultiHeadAttention_train True M0"
  let ?s = attention_state
  let ?val = "MHA_value ?M (noise ?s) (rng ?s) (heap ?s ! 0) (heap ?s ! 1) (heap ?s ! 2)
                (deref ?s (Some 3))"
  have wf: "MHA_wf 4 ?M" and hd: "n_head ?M = 2"
    using MHA_init_wf [OF i, of True] by simp_all
  have k: "shape (heap ?s ! 1) = [2, 3] @ [4]" and v: "shape (heap ?s ! 2) = [2, 3] @ [4]"
    using attention_state_shapes by simp_all
  have "\<exists>out w. ?val = Inr (out, w) \<and> shape out = [2, 3, 4] \<and> shape w = [2, n_head ?M, 3, 3]"
    by (rule MHA_ok [OF wf attention_state_shapes(2) k _ v])
       (simp_all add: attention_state_shapes hd broadcast_shapes_def deref_def)
  then obtain t w where ok: "?val = Inr (t, w)" by blast
  obtain r s' where r: "MultiHeadAttention_forward ?M 0 1 2 (Some 3) ?s = (r, s')"
    "post2 2 ?s ?val r s'"
    using run_fst [OF MHA_run [of 0 ?s 1 2 "Some 3" ?M]]
    by (auto simp: attention_state_shapes valid_ref_def)
  with ok show ?thesis by (cases r) (simp_all add: post2_def)
qed

theorem MultiHeadAttention_forward_element_counts_witness:
  "(MultiHeadAttention_init 1 1 1 1 0 0 zero_params = Inr example_mha \<and>
    shape (heap cross_state ! 0) = [2, 1, 1] \<and>
    shape (heap cross_state ! 1) = [1, 2, 1] \<and>
    MultiHeadAttention_forward example_mha 0 1 1 None cross_state
      = (Inr (projr (fst (MultiHeadAttention_forward example_mha 0 1 1 None cross_state))),
         snd (MultiHeadAttention_forward example_mha 0 1 1 None cross_state)) \<and>
    (1::nat) * 2 * (1 * 1) = 2 * 1 * (1 * 1)) \<and>
   (\<exists>M0 r s'.
      MultiHeadAttention_init 2 4 3 5 (1 / 2) (1 / 2) ramp_params = Inr M0 \<and>
      shape (heap attention_state ! 0) = [2, 3, 4] \<and>
      shape (heap attention_state ! 1) = [2, 3, 4] \<and>
      shape (heap attention_state ! 2) = [2, 3, 4] \<and>
      MultiHeadAttention_forward (MultiHeadAttention_train True M0) 0 1 2 (Some 3) attention_state
        = (Inr r, s') \<and>
      (2::nat) = 2 \<and> (0::nat) < 2 \<and> (0::nat) < 2 * 3 \<and> (0::nat) < 2 * 5 \<and>
      (2::nat) * 3 * (2 * 3) = 2 * 3 * (2 * 3) \<and>
      (2::nat) * 3 * (2 * 5) = 2 * 3 * (2 * 5) \<and>
      (3::nat) = 3)"
proof -
  let ?c = "MultiHeadAttention_forward example_mha 0 1 1 None cross_state"
  have tr: "example_mha = MultiHeadAttention_train True example_mha"
    using MHA_train_True [OF example_mha_init] by simp
  have ret: "?c = (Inr (projr (fst ?c)), snd ?c)"
    using cross_call_returns by (cases ?c; cases "fst ?c") auto
  have "(1::nat) * 2 * (1 * 1) = 2 * 1 * (1 * 1)"
    using MultiHeadAttention_forward_element_counts [OF example_mha_init tr _ _ _ _
        cross_state_shapes(2) cross_state_shapes(3) cross_state_shapes(3) ret]
    by (simp add: cross_state_shapes valid_ref_def)
  then have a: "MultiHeadAttention_init 1 1 1 1 0 0 zero_params = Inr example_mha \<and>
      shape (heap cross_state ! 0) = [2, 1, 1] \<and>
      shape (heap cross_state ! 1) = [1, 2, 1] \<and>
      ?c = (Inr (projr (fst ?c)), snd ?c) \<and>
      (1::nat) * 2 * (1 * 1) = 2 * 1 * (1 * 1)"
    using example_mha_init cross_state_shapes ret by simp
  obtain M0 where i: "MultiHeadAttention_init 2 4 3 5 (1 / 2) (1 / 2) ramp_params = Inr M0"
    by (simp add: MultiHeadAttention_init_def ScaledDotProductAttention_init_def Dropout_init_def
        bindE_def)
  obtain r s' where r: "MultiHeadAttention_forward (MultiHeadAttention_train True M0) 0 1 2
      (Some 3) attention_state = (Inr r, s')"
    using attention_call_returns [OF i] by blast
  have "(2::nat) * 3 * (2 * 3) = 2 * 3 * (2 * 3) \<and> (2::nat) * 3 * (2 * 5) = 2 * 3 * (2 * 5) \<and>
      ((2::nat) = 2 \<and> (0::nat) < 2 \<and> (0::nat) < 2 * 3 \<longrightarrow> (3::nat) = 3) \<and>
      ((2::nat) = 2 \<and> (0::nat) < 2 \<and> (0::nat) < 2 * 5 \<longrightarrow> (3::nat) = 3)"
    by (rule MultiHeadAttention_forward_element_counts [OF i refl _ _ _ _
          attention_state_shapes(2,3,4) r])
       (simp_all add: attention_state_shapes valid_ref_def)
  then have b: "\<exists>M0 r s'.
      MultiHeadAttention_init 2 4 3 5 (1 / 2) (1 / 2) ramp_params = Inr M0 \<and>
      shape (heap attention_state ! 0) = [2, 3, 4] \<and>
      shape (heap attention_state ! 1) = [2, 3, 4] \<and>
      shape (heap attention_state ! 2) = [2, 3, 4] \<and>
      MultiHeadAttention_forward (MultiHeadAttention_train True M0) 0 1 2 (Some 3) attention_state
        = (Inr r, s') \<and>
      (2::nat) = 2 \<and> (0::nat) < 2 \<and> (0::nat) < 2 * 3 \<and> (0::nat) < 2 * 5 \<and>
      (2::nat) * 3 * (2 * 3) = 2 * 3 * (2 * 3) \<and>
      (2::nat) * 3 * (2 * 5) = 2 * 3 * (2 * 5) \<and>
      (3::nat) = 3"
    using i r attention_state_shapes(2,3,4) by auto
  show ?thesis using a b by blast
qed

section \<open>The positional encoding table\<close>

lemma elem_unsqueeze_0:
  "elem (t\<lparr>shape := 1 # shape t\<rparr>) (0 # idx) = elem t idx"
  by (simp add: elem_def)

lemma bidx_valid: "list_all2 (<) idx sh \<Longrightarrow> bidx sh idx = idx"
proof -
  assume a: "list_all2 (<) idx sh"
  then have l: "length idx = length sh" by (rule list_all2_lengthD)
  have "map2 (\<lambda>n i. if n = 1 then 0 else i) sh idx = idx"
    using a by (induction idx sh rule: list_all2_induct) auto
  then show ?thesis using l by (simp add: bidx_def)
qed

lemma sinusoid_table_spec:
  assumes "get_sinusoid_encoding_table n_position d_hid = Inr T"
  shows "shape T = [1, n_position, d_hid] \<and>
         (\<forall>pos<n_position. \<forall>i<d_hid.
            elem T [0, pos, i] =
              (if even i then sin (real pos / 10000 powr (real (2 * (i div 2)) / real d_hid))
               else cos (real pos / 10000 powr (real (2 * (i div 2)) / real d_hid))))"
proof -
  let ?f = "\<lambda>idx. get_position_angle_vec d_hid (idx ! 0) (idx ! 1)"
  let ?t0 = "tab [n_position, d_hid] ?f"
  let ?t2 = "cos_odd_columns (sin_even_columns ?t0)"
  have n: "n_position \<noteq> 0" and T: "T = ?t2\<lparr>shape := 1 # shape ?t2\<rparr>"
    using assms
    by (auto simp: get_sinusoid_encoding_table_def unsqueeze_def Let_def cos_odd_columns_def
        split: if_splits)
  have sh: "shape T = [1, n_position, d_hid]"
    using T by (simp add: cos_odd_columns_def sin_even_columns_def)
  have "elem T [0, pos, i] =
          (if even i then sin (real pos / 10000 powr (real (2 * (i div 2)) / real d_hid))
           else cos (real pos / 10000 powr (real (2 * (i div 2)) / real d_hid)))"
    if "pos < n_position" "i < d_hid" for pos i
  proof -
    have v: "valid_idx [n_position, d_hid] [pos, i]"
      using that by (simp add: valid_idx_def)
    have "elem T [0, pos, i] = elem ?t2 [pos, i]"
      unfolding T by (rule elem_unsqueeze_0)
    also have "\<dots> = (if odd i then cos (elem (sin_even_columns ?t0) [pos, i])
                      else elem (sin_even_columns ?t0) [pos, i])"
      using v by (simp add: cos_odd_columns_def sin_even_columns_def elem_tab)
    also have "elem (sin_even_columns ?t0) [pos, i]
                 = (if even i then sin (elem ?t0 [pos, i]) else elem ?t0 [pos, i])"
      using v by (simp add: sin_even_columns_def elem_tab)
    also have "elem ?t0 [pos, i] = real pos / 10000 powr (real (2 * (i div 2)) / real d_hid)"
      using v by (simp add: elem_tab get_position_angle_vec_def)
    finally show ?thesis by simp
  qed
  with sh show ?thesis by blast
qed


lemma PositionalEncoding_init_result:
  assumes "PositionalEncoding_init d_hid n_position s0 = (Inr P, s1)"
  shows "\<exists>T. get_sinusoid_encoding_table n_position d_hid = Inr T \<and>
             s1 = s0\<lparr>heap := heap s0 @ [T]\<rparr> \<and>
             P = \<lparr>pe_buffers = [(''pos_table'', length (heap s0))], pe_parameters = []\<rparr>"
  using assms
  by (cases "get_sinusoid_encoding_table n_position d_hid")
     (auto simp: PositionalEncoding_init_def bnd_def lift_def alloc_def return_def)

lemma add_table_rows:
  assumes x: "shape x = [batch, steps, d]" and sl: "shape sl = [1, steps, d]"
  shows "\<exists>z. add x sl = Inr z \<and> shape z = [batch, steps, d] \<and>
           (\<forall>b<batch. \<forall>t<steps. \<forall>i<d. elem z [b, t, i] = elem x [b, t, i] + elem sl [0, t, i])"
proof -
  have bs: "broadcast_shapes [batch, steps, d] [1, steps, d] = Some [batch, steps, d]"
    by (simp add: broadcast_shapes_def)
  let ?z = "tab [batch, steps, d]
              (\<lambda>idx. elem x (bidx (shape x) idx) + elem sl (bidx (shape sl) idx))"
  have z: "add x sl = Inr ?z" using bs by (simp add: add_def x sl)
  have "elem ?z [b, t, i] = elem x [b, t, i] + elem sl [0, t, i]"
    if "b < batch" "t < steps" "i < d" for b t i
  proof -
    have v: "valid_idx [batch, steps, d] [b, t, i]" using that by (simp add: valid_idx_def)
    have b1: "bidx [batch, steps, d] [b, t, i] = [b, t, i]"
      using that by (intro bidx_valid) simp
    have b2: "bidx [1, steps, d] [b, t, i] = [0, t, i]"
      using that by (auto simp: bidx_def)
    show ?thesis using v b1 b2 by (simp add: elem_tab x sl)
  qed
  then show ?thesis using z by (intro exI [of _ ?z]) simp
qed

text \<open>
  Claim C6. Constructing a PositionalEncoding with \<open>(d_model, n_position)\<close> allocates the
  table as a new object, registered as the buffer \<^verbatim>\<open>pos_table\<close>; the module has no
  parameter (gradients are computed for parameters; the model has no other notion of a
  gradient). The table has shape \<open>[1, n_position, d_model]\<close>; its entry at position \<open>pos\<close>
  and feature \<open>i\<close> is the sine, for even \<open>i\<close>, and the cosine, for odd \<open>i\<close>, of
  \<open>pos / 10000 ^ (2 * (i div 2) / d_model)\<close>. In any later state in which the table is as
  constructed, \<^verbatim>\<open>forward\<close> on \<open>x\<close> of shape \<open>[batch, steps, d_model]\<close> with
  \<open>steps \<le> n_position\<close> returns a new tensor of the shape of \<open>x\<close> whose element at
  \<open>[b, t, i]\<close> is that of \<open>x\<close> plus the entry \<open>[0, t, i]\<close> of the table, and leaves the
  table and \<open>x\<close> as they were.
\<close>

theorem PositionalEncoding_spec:
  assumes init: "PositionalEncoding_init d_model n_position s0 = (Inr P, s1)"
    and later: "length (heap s1) \<le> length (heap s)"
      "heap s ! length (heap s0) = heap s1 ! length (heap s0)"
    and x: "x < length (heap s)" "shape (heap s ! x) = [batch, steps, d_model]"
    and steps: "steps \<le> n_position"
  shows "\<exists>table out s'.
           PositionalEncoding_getattr P ''pos_table'' = Inr table \<and>
           table = length (heap s0) \<and> length (heap s1) = Suc (length (heap s0)) \<and>
           pe_parameters P = [] \<and>
           shape (heap s1 ! table) = [1, n_position, d_model] \<and>
           (\<forall>pos<n_position. \<forall>i<d_model.
              elem (heap s1 ! table) [0, pos, i] =
                (if even i then sin (real pos / 10000 powr (real (2 * (i div 2)) / real d_model))
                 else cos (real pos / 10000 powr (real (2 * (i div 2)) / real d_model)))) \<and>
           PositionalEncoding_forward P x s = (Inr out, s') \<and>
           length (heap s) \<le> out \<and>
           shape (heap s' ! out) = [batch, steps, d_model] \<and>
           (\<forall>b<batch. \<forall>t<steps. \<forall>i<d_model.
              elem (heap s' ! out) [b, t, i]
                = elem (heap s ! x) [b, t, i] + elem (heap s1 ! table) [0, t, i]) \<and>
           heap s' ! table = heap s1 ! table \<and>
           heap s' ! x = heap s ! x"
proof -
  let ?a = "length (heap s0)"
  obtain T where T: "get_sinusoid_encoding_table n_position d_model = Inr T"
    and s1: "s1 = s0\<lparr>heap := heap s0 @ [T]\<rparr>"
    and P: "P = \<lparr>pe_buffers = [(''pos_table'', ?a)], pe_parameters = []\<rparr>"
    using PositionalEncoding_init_result [OF init] by blast
  have hT: "heap s1 ! ?a = T" and l1: "length (heap s1) = Suc ?a"
    using s1 by simp_all
  have a: "?a < length (heap s)" and sT: "heap s ! ?a = T"
    using later l1 hT by simp_all
  note tab = sinusoid_table_spec [OF T]
  have g: "PositionalEncoding_getattr P ''pos_table'' = Inr ?a"
    by (simp add: PositionalEncoding_getattr_def P)
  let ?sl = "tab [1, steps, d_model] (elem T)"
  have sl: "slice_dim1 T steps = Inr ?sl"
    using tab steps by (simp add: slice_dim1_def min_absorb1)
  have sle: "elem ?sl [0, t, i] = elem T [0, t, i]" if "t < steps" "i < d_model" for t i
    using that by (simp add: elem_tab valid_idx_def)
  obtain z where z: "add (heap s ! x) ?sl = Inr z" "shape z = [batch, steps, d_model]"
    "\<forall>b<batch. \<forall>t<steps. \<forall>i<d_model.
       elem z [b, t, i] = elem (heap s ! x) [b, t, i] + elem ?sl [0, t, i]"
    using add_table_rows [OF x(2), of ?sl] by auto
  have fw: "PositionalEncoding_forward P x s
      = (Inr (length (heap s) + 2), s\<lparr>heap := heap s @ [?sl, ?sl, z]\<rparr>)"
    using x a sT sl z(1)
    by (simp add: PositionalEncoding_forward_def g bnd_def lift_def size_st_def size_dim_def
        load_def op1_def op2_def alloc_def nth_append)
  let ?s' = "s\<lparr>heap := heap s @ [?sl, ?sl, z]\<rparr>"
  let ?out = "length (heap s) + 2"
  have o: "heap ?s' ! ?out = z" by (simp add: nth_append)
  have c4: "pe_parameters P = []" by (simp add: P)
  have c5: "shape (heap s1 ! ?a) = [1, n_position, d_model]"
    using tab hT by simp
  have c6: "\<forall>pos<n_position. \<forall>i<d_model.
      elem (heap s1 ! ?a) [0, pos, i] =
        (if even i then sin (real pos / 10000 powr (real (2 * (i div 2)) / real d_model))
         else cos (real pos / 10000 powr (real (2 * (i div 2)) / real d_model)))"
    using tab hT by simp
  have c8: "length (heap s) \<le> ?out" by simp
  have c9: "shape (heap ?s' ! ?out) = [batch, steps, d_model]"
    using o z(2) by simp
  have c10: "\<forall>b<batch. \<forall>t<steps. \<forall>i<d_model.
      elem (heap ?s' ! ?out) [b, t, i] = elem (heap s ! x) [b, t, i] + elem (heap s1 ! ?a) [0, t, i]"
    using z(3) sle o hT by simp
  have c11: "heap ?s' ! ?a = heap s1 ! ?a" "heap ?s' ! x = heap s ! x"
    using a x sT hT by (simp_all add: nth_append)
  show ?thesis
    using g l1 c4 c5 c6 fw c8 c9 c10 c11 by blast
qed


definition encoding_state :: state where
  "encoding_state =
     \<lparr>heap = [tab [2, 2, 4] (\<lambda>idx. real (idx ! 0) + 2 * real (idx ! 1) - real (idx ! 2))],
      rng = 0, noise = (\<lambda>c i. even (c + i))\<rparr>"

lemma PositionalEncoding_init_ok:
  "0 < n_position \<Longrightarrow>
   \<exists>P s1. PositionalEncoding_init d_hid n_position s0 = (Inr P, s1) \<and>
          length (heap s1) = Suc (length (heap s0)) \<and>
          (\<forall>a<length (heap s0). heap s1 ! a = heap s0 ! a)"
  by (simp add: PositionalEncoding_init_def get_sinusoid_encoding_table_def unsqueeze_def
      Let_def bnd_def lift_def alloc_def return_def nth_append)

theorem PositionalEncoding_spec_witness:
  "\<exists>P s1 table out s'.
     PositionalEncoding_init 4 3 encoding_state = (Inr P, s1) \<and>
     length (heap encoding_state) = 1 \<and>
     shape (heap s1 ! 0) = [2, 2, 4] \<and>
     elem (heap s1 ! 0) [1, 1, 2] = 1 \<and>
     PositionalEncoding_getattr P ''pos_table'' = Inr table \<and>
     table = 1 \<and> length (heap s1) = 2 \<and>
     pe_parameters P = [] \<and>
     shape (heap s1 ! table) = [1, 3, 4] \<and>
     elem (heap s1 ! table) [0, 2, 1] = cos 2 \<and>
     elem (heap s1 ! table) [0, 1, 2] = sin (1 / 10000 powr (1 / 2)) \<and>
     PositionalEncoding_forward P 0 s1 = (Inr out, s') \<and>
     2 \<le> out \<and>
     shape (heap s' ! out) = [2, 2, 4] \<and>
     elem (heap s' ! out) [1, 1, 2] = 1 + sin (1 / 10000 powr (1 / 2)) \<and>
     heap s' ! table = heap s1 ! table \<and>
     heap s' ! 0 = heap s1 ! 0"
proof -
  have l0: "length (heap encoding_state) = 1" by (simp add: encoding_state_def)
  obtain P s1 where i: "PositionalEncoding_init 4 3 encoding_state = (Inr P, s1)"
    and l1: "length (heap s1) = 2" and h0: "heap s1 ! 0 = heap encoding_state ! 0"
    using PositionalEncoding_init_ok [of 3 4 encoding_state] l0 by auto
  have x: "0 < length (heap s1)" "shape (heap s1 ! 0) = [2, 2, 4]"
    and e: "elem (heap s1 ! 0) [1, 1, 2] = 1"
    using l1 h0 by (simp_all add: encoding_state_def elem_tab valid_idx_def)
  obtain table out s' where r:
    "PositionalEncoding_getattr P ''pos_table'' = Inr table"
    "table = length (heap encoding_state)" "length (heap s1) = Suc (length (heap encoding_state))"
    "pe_parameters P = []"
    "shape (heap s1 ! table) = [1, 3, 4]"
    "\<forall>pos<3. \<forall>i<4. elem (heap s1 ! table) [0, pos, i] =
        (if even i then sin (real pos / 10000 powr (real (2 * (i div 2)) / real 4))
         else cos (real pos / 10000 powr (real (2 * (i div 2)) / real 4)))"
    "PositionalEncoding_forward P 0 s1 = (Inr out, s')"
    "length (heap s1) \<le> out"
    "shape (heap s' ! out) = [2, 2, 4]"
    "\<forall>b<2. \<forall>t<2. \<forall>i<4. elem (heap s' ! out) [b, t, i]
        = elem (heap s1 ! 0) [b, t, i] + elem (heap s1 ! table) [0, t, i]"
    "heap s' ! table = heap s1 ! table"
    "heap s' ! 0 = heap s1 ! 0"
    using PositionalEncoding_spec [OF i order_refl refl x] by auto
  have t1: "elem (heap s1 ! table) [0, 2, 1] = cos 2"
    using r(6) [rule_format, of 2 1] by simp
  have t2: "elem (heap s1 ! table) [0, 1, 2] = sin (1 / 10000 powr (1 / 2))"
    using r(6) [rule_format, of 1 2] by simp
  have o: "elem (heap s' ! out) [1, 1, 2] = 1 + sin (1 / 10000 powr (1 / 2))"
    using r(10) [rule_format, of 1 1 2] e t2 by simp
  have "table = 1" "2 \<le> out" using r(2,8) l0 l1 by simp_all
  then show ?thesis
    using i l0 x(2) e r(1,4,5,7,9,11,12) l1 t1 t2 o by blast
qed

section \<open>The encoder stack\<close>

text \<open>
  What the stack of layers computes, as a function on tensor values: the hidden state
  goes through the layers in their order, and the attention weights of the layers are
  listed in that order. Each layer calls dropout three times.
\<close>

fun Encoder_layers_value ::
  "EncoderLayer list \<Rightarrow> (nat \<Rightarrow> nat \<Rightarrow> bool) \<Rightarrow> nat \<Rightarrow> tensor \<Rightarrow> tensor option
     \<Rightarrow> error + tensor \<times> tensor list" where
  "Encoder_layers_value [] keeps c x src_mask = Inr (x, [])"
| "Encoder_layers_value (layer # rest) keeps c x src_mask =
     bindE (EncoderLayer_value layer keeps c x src_mask) (\<lambda>(y, attn_weights).
     bindE (Encoder_layers_value rest keeps (c + 3) y src_mask) (\<lambda>(z, collected).
     Inr (z, attn_weights # collected)))"

lemma Encoder_layers_value_length:
  "Encoder_layers_value layers keeps c x src_mask = Inr (z, ws) \<Longrightarrow> length ws = length layers"
  by (induction layers arbitrary: c x z ws) (auto simp: bindE_def split: sum.splits prod.splits)

definition post_loop ::
  "nat \<Rightarrow> state \<Rightarrow> addr list \<Rightarrow> error + tensor \<times> tensor list \<Rightarrow> error + addr \<times> addr list
     \<Rightarrow> state \<Rightarrow> bool" where
  "post_loop n s acc val r s' =
     (frame (length (heap s)) s s' \<and>
      (case r of
         Inl e \<Rightarrow> val = Inl e
       | Inr (h, collector) \<Rightarrow>
           rng s' = rng s + 3 * n \<and> h < length (heap s') \<and>
           (\<exists>ws. collector = acc @ ws \<and> list_all (\<lambda>a. a < length (heap s')) ws \<and>
                 val = Inr (heap s' ! h, map ((!) (heap s')) ws))))"

lemma frame_trans:
  "frame (length (heap s)) s s1 \<Longrightarrow> frame (length (heap s1)) s1 s2 \<Longrightarrow>
   frame (length (heap s)) s s2"
  by (auto simp: frame_def)

lemma deref_frame:
  "frame (length (heap s)) s s1 \<Longrightarrow> valid_ref s m \<Longrightarrow> deref s1 m = deref s m \<and> valid_ref s1 m"
  by (cases m) (auto simp: frame_def deref_def valid_ref_def)

lemma Encoder_loop_post:
  assumes "h < length (heap s)" "valid_ref s src_mask"
  shows "\<exists>r s'. Encoder_loop layers src_mask h acc s = (r, s') \<and>
           post_loop (length layers) s acc
             (Encoder_layers_value layers (noise s) (rng s) (heap s ! h) (deref s src_mask)) r s'"
  using assms
proof (induction layers arbitrary: s h acc)
  case Nil
  then show ?case
    by (simp add: return_def post_loop_def frame_def)
next
  case (Cons L Ls)
  let ?v1 = "EncoderLayer_value L (noise s) (rng s) (heap s ! h) (deref s src_mask)"
  obtain r1 s1 where r1: "EncoderLayer_forward L h src_mask s = (r1, s1)"
    and p1: "post2 3 s ?v1 r1 s1"
    using run_fst [OF EncoderLayer_run [OF Cons.prems, of L]] by blast
  have f1: "frame (length (heap s)) s s1" using p1 by (simp add: post2_def)
  show ?case
  proof (cases r1)
    case (Inl e)
    then have "?v1 = Inl e" using p1 by (simp add: post2_def)
    then show ?thesis
      using r1 Inl f1 by (simp add: bnd_def post_loop_def bindE_def)
  next
    case (Inr hw)
    obtain h1 w where hw: "hw = (h1, w)" by (cases hw)
    have q1: "rng s1 = rng s + 3" "h1 < length (heap s1)" "w < length (heap s1)"
      "?v1 = Inr (heap s1 ! h1, heap s1 ! w)"
      using p1 Inr hw by (simp_all add: post2_def)
    have m1: "deref s1 src_mask = deref s src_mask" "valid_ref s1 src_mask"
      using deref_frame [OF f1 Cons.prems(2)] by simp_all
    have n1: "noise s1 = noise s" using f1 by (simp add: frame_def)
    let ?v2 = "Encoder_layers_value Ls (noise s) (rng s + 3) (heap s1 ! h1) (deref s src_mask)"
    obtain r2 s2 where r2: "Encoder_loop Ls src_mask h1 (acc @ [w]) s1 = (r2, s2)"
      and p2: "post_loop (length Ls) s1 (acc @ [w]) ?v2 r2 s2"
      using Cons.IH [OF q1(2) m1(2), of "acc @ [w]"] by (auto simp: n1 q1(1) m1(1))
    have f2: "frame (length (heap s1)) s1 s2" using p2 by (simp add: post_loop_def)
    have f: "frame (length (heap s)) s s2" using frame_trans [OF f1 f2] .
    have run: "Encoder_loop (L # Ls) src_mask h acc s = (r2, s2)"
      using r1 Inr hw r2 by (simp add: bnd_def)
    show ?thesis
    proof (cases r2)
      case (Inl e)
      then have "?v2 = Inl e" using p2 by (simp add: post_loop_def)
      then show ?thesis
        using run Inl f q1(4) by (simp add: post_loop_def bindE_def)
    next
      case (Inr hc)
      obtain h' col where hc: "hc = (h', col)" by (cases hc)
      obtain ws where ws: "rng s2 = rng s1 + 3 * length Ls" "h' < length (heap s2)"
        "col = (acc @ [w]) @ ws" "list_all (\<lambda>a. a < length (heap s2)) ws"
        "?v2 = Inr (heap s2 ! h', map ((!) (heap s2)) ws)"
        using p2 Inr hc by (auto simp: post_loop_def)
      have w2: "heap s2 ! w = heap s1 ! w" "w < length (heap s2)"
        using f2 q1(3) by (auto simp: frame_def)
      have "\<exists>ws'. col = acc @ ws' \<and> list_all (\<lambda>a. a < length (heap s2)) ws' \<and>
              Encoder_layers_value (L # Ls) (noise s) (rng s) (heap s ! h) (deref s src_mask)
                = Inr (heap s2 ! h', map ((!) (heap s2)) ws')"
        using ws w2 q1(4) by (intro exI [of _ "w # ws"]) (simp add: bindE_def)
      then show ?thesis
        using run Inr hc f ws(1,2) q1(1) by (simp add: post_loop_def)
    qed
  qed
qed


definition PE_value :: "tensor \<Rightarrow> tensor \<Rightarrow> error + tensor" where
  "PE_value pos_table x =
     bindE (size_dim x 1) (\<lambda>steps.
     bindE (slice_dim1 pos_table steps) (\<lambda>sliced.
     add x sliced))"

definition Encoder_value ::
  "Encoder \<Rightarrow> tensor \<Rightarrow> (nat \<Rightarrow> nat \<Rightarrow> bool) \<Rightarrow> nat \<Rightarrow> tensor \<Rightarrow> tensor option
     \<Rightarrow> error + tensor \<times> tensor list" where
  "Encoder_value E pos_table keeps c x src_mask =
     bindE (linear (enc_embedding E) x) (\<lambda>embedded.
     bindE (PE_value pos_table embedded) (\<lambda>encoded.
     Encoder_layers_value (enc_layer_stack E) keeps (Suc c)
       (dropout_value (enc_dropout E) (keeps c) encoded) src_mask))"

lemma PE_run:
  assumes "PositionalEncoding_getattr P ''pos_table'' = Inr a" "a < length (heap s)"
    "x < length (heap s)"
  shows "run (PositionalEncoding_forward P x) s (post1 0 s (PE_value (heap s ! a) (heap s ! x)))"
  unfolding PositionalEncoding_forward_def PE_value_def post1_def
  apply (insert assms)
  apply (rule run_bnd, rule run_lift; (simp add: nth_append bindE_def frame_def)?)
  apply (rule run_bnd, rule run_size; (simp add: nth_append bindE_def frame_def)?)
  apply (rule run_bnd, rule run_op1; (simp add: nth_append bindE_def frame_def)?)
  apply (rule run_bnd, rule run_op1; (simp add: nth_append bindE_def frame_def)?)
  apply (rule run_op2; (simp add: nth_append bindE_def frame_def)?)
  done

lemma Dropout_post:
  assumes "a < length (heap s)"
  shows "\<exists>d s'. Dropout_forward D a s = (Inr d, s') \<and> frame (length (heap s)) s s' \<and>
           rng s' = Suc (rng s) \<and> d < length (heap s') \<and>
           heap s' ! d = dropout_value D (noise s (rng s)) (heap s ! a)"
  using assms
  by (simp add: Dropout_forward_def bnd_def load_def next_draw_def alloc_def return_def
      dropout_value_def frame_def nth_append)

lemma Encoder_forward_False:
  "Encoder_forward E x src_mask False s =
     (case Encoder_forward E x src_mask True s of
        (Inr (HiddenAttn h ws), s') \<Rightarrow> (Inr (Hidden h), s')
      | other \<Rightarrow> other)"
  by (simp add: Encoder_forward_def bnd_def return_def split: prod.splits sum.splits)

lemma Encoder_forward_post:
  assumes x: "x < length (heap s)" and m: "valid_ref s src_mask"
    and a: "PositionalEncoding_getattr (enc_position_enc E) ''pos_table'' = Inr a"
      "a < length (heap s)"
  shows "\<exists>r s'. Encoder_forward E x src_mask True s = (r, s') \<and>
           frame (length (heap s)) s s' \<and>
           (case r of
              Inl e \<Rightarrow>
                Encoder_value E (heap s ! a) (noise s) (rng s) (heap s ! x) (deref s src_mask)
                  = Inl e
            | Inr res \<Rightarrow>
                \<exists>h ws. res = HiddenAttn h ws \<and> h < length (heap s') \<and>
                  list_all (\<lambda>a. a < length (heap s')) ws \<and>
                  length ws = length (enc_layer_stack E) \<and>
                  Encoder_value E (heap s ! a) (noise s) (rng s) (heap s ! x) (deref s src_mask)
                    = Inr (heap s' ! h, map ((!) (heap s')) ws))"
proof (cases "linear (enc_embedding E) (heap s ! x)")
  case (Inl e)
  then show ?thesis
    using x
    by (simp add: Encoder_forward_def Linear_forward_def op1_def bnd_def load_def lift_def
        Encoder_value_def bindE_def frame_def)
next
  case (Inr et)
  let ?sa = "s\<lparr>heap := heap s @ [et]\<rparr>"
  let ?ea = "length (heap s)"
  have st1: "Linear_forward (enc_embedding E) x s = (Inr ?ea, ?sa)"
    using x Inr by (simp add: Linear_forward_def op1_def bnd_def load_def lift_def alloc_def)
  have fa: "frame (length (heap s)) s ?sa" by (simp add: frame_def nth_append)
  have ha: "heap ?sa ! a = heap s ! a" "heap ?sa ! ?ea = et" "a < length (heap ?sa)"
    "?ea < length (heap ?sa)"
    using a(2) by (simp_all add: nth_append)
  let ?pv = "PE_value (heap s ! a) et"
  obtain r2 sb where st2: "PositionalEncoding_forward (enc_position_enc E) ?ea ?sa = (r2, sb)"
    and p2: "post1 0 ?sa ?pv r2 sb"
    using run_fst [OF PE_run [OF a(1) ha(3) ha(4)]] ha(1,2) by auto
  have fb: "frame (length (heap ?sa)) ?sa sb" using p2 by (simp add: post1_def)
  have fsb: "frame (length (heap s)) s sb" using frame_trans [OF fa fb] .
  show ?thesis
  proof (cases r2)
    case (Inl e)
    then have "?pv = Inl e" using p2 by (simp add: post1_def)
    then show ?thesis
      using st1 st2 Inl Inr fsb
      by (simp add: Encoder_forward_def bnd_def Encoder_value_def bindE_def)
  next
    case (Inr p)
    have q2: "rng sb = rng s" "p < length (heap sb)" "?pv = Inr (heap sb ! p)"
      using p2 Inr by (simp_all add: post1_def)
    have nb: "noise sb = noise s" using fsb by (simp add: frame_def)
    obtain d sc where st3: "Dropout_forward (enc_dropout E) p sb = (Inr d, sc)"
      and fc: "frame (length (heap sb)) sb sc" and q3: "rng sc = Suc (rng s)"
      "d < length (heap sc)"
      "heap sc ! d = dropout_value (enc_dropout E) (noise s (rng s)) (heap sb ! p)"
      using Dropout_post [OF q2(2), of "enc_dropout E"] q2(1) nb by auto
    have fsc: "frame (length (heap s)) s sc" using frame_trans [OF fsb fc] .
    have mc: "deref sc src_mask = deref s src_mask" "valid_ref sc src_mask"
      using deref_frame [OF fsc m] by simp_all
    have nc: "noise sc = noise s" using fsc by (simp add: frame_def)
    let ?lv = "Encoder_layers_value (enc_layer_stack E) (noise s) (Suc (rng s)) (heap sc ! d)
                 (deref s src_mask)"
    obtain r4 s' where st4: "Encoder_loop (enc_layer_stack E) src_mask d [] sc = (r4, s')"
      and p4: "post_loop (length (enc_layer_stack E)) sc [] ?lv r4 s'"
      using Encoder_loop_post [OF q3(2) mc(2), of "enc_layer_stack E" "[]"]
      by (auto simp: mc(1) nc q3(1))
    have f4: "frame (length (heap sc)) sc s'" using p4 by (simp add: post_loop_def)
    have f: "frame (length (heap s)) s s'" using frame_trans [OF fsc f4] .
    have val: "Encoder_value E (heap s ! a) (noise s) (rng s) (heap s ! x) (deref s src_mask)
        = ?lv"
      using \<open>linear (enc_embedding E) (heap s ! x) = Inr et\<close> q2(3) q3(3)
      by (simp add: Encoder_value_def bindE_def)
    show ?thesis
    proof (cases r4)
      case (Inl e)
      then have "?lv = Inl e" using p4 by (simp add: post_loop_def)
      then show ?thesis
        using st1 st2 st3 st4 Inl \<open>r2 = Inr p\<close> f val
        by (simp add: Encoder_forward_def bnd_def)
    next
      case (Inr hc)
      obtain h col where hc: "hc = (h, col)" by (cases hc)
      have q4: "h < length (heap s')" "list_all (\<lambda>a. a < length (heap s')) col"
        "?lv = Inr (heap s' ! h, map ((!) (heap s')) col)"
        using p4 Inr hc by (auto simp: post_loop_def)
      have "length col = length (enc_layer_stack E)"
        using Encoder_layers_value_length [OF q4(3)] by simp
      then show ?thesis
        using st1 st2 st3 st4 Inr hc \<open>r2 = Inr p\<close> f val q4
        by (simp add: Encoder_forward_def bnd_def return_def)
    qed
  qed
qed


subsection \<open>When the encoder returns\<close>

definition EncoderLayer_train :: "bool \<Rightarrow> EncoderLayer \<Rightarrow> EncoderLayer" where
  "EncoderLayer_train mode L =
     L\<lparr>enc_slf_attn := MultiHeadAttention_train mode (enc_slf_attn L),
       enc_pos_ffn := PositionWiseFeedForward_train mode (enc_pos_ffn L)\<rparr>"

definition Encoder_train :: "bool \<Rightarrow> Encoder \<Rightarrow> Encoder" where
  "Encoder_train mode E =
     E\<lparr>enc_dropout := Dropout_train mode (enc_dropout E),
       enc_layer_stack := map (EncoderLayer_train mode) (enc_layer_stack E)\<rparr>"

definition EncoderLayer_wf :: "nat \<Rightarrow> nat \<Rightarrow> EncoderLayer \<Rightarrow> bool" where
  "EncoderLayer_wf dm H L =
     (MHA_wf dm (enc_slf_attn L) \<and> FFN_wf dm (enc_pos_ffn L) \<and> n_head (enc_slf_attn L) = H)"

lemma EncoderLayer_ok:
  assumes wf: "EncoderLayer_wf dm H L"
    and x: "shape x = [B, S, dm]" and pos: "0 < B" "0 < S"
    and m: "\<And>m. src_mask = Some m \<Longrightarrow>
              shape m \<noteq> [] \<and>
              broadcast_shapes [B, H, S, S] (hd (shape m) # 1 # tl (shape m)) = Some [B, H, S, S]"
  shows "\<exists>z w. EncoderLayer_value L keeps c x src_mask = Inr (z, w) \<and>
           shape z = [B, S, dm] \<and> shape w = [B, H, S, S]"
proof -
  have mwf: "MHA_wf dm (enc_slf_attn L)" and fwf: "FFN_wf dm (enc_pos_ffn L)"
    and hd: "n_head (enc_slf_attn L) = H"
    using wf by (simp_all add: EncoderLayer_wf_def)
  have x': "shape x = [B, S] @ [dm]" using x by simp
  have m': "\<And>m. src_mask = Some m \<Longrightarrow>
              shape m \<noteq> [] \<and>
              broadcast_shapes [B, n_head (enc_slf_attn L), S, S] (hd (shape m) # 1 # tl (shape m))
                = Some [B, n_head (enc_slf_attn L), S, S]"
    using m by (simp add: hd)
  have "\<exists>out w. MHA_value (enc_slf_attn L) keeps c x x x src_mask = Inr (out, w) \<and>
          shape out = [B, S, dm] \<and> shape w = [B, n_head (enc_slf_attn L), S, S]"
    apply (rule MHA_ok [OF mwf x x' _ x' _ pos])
      apply simp
     apply simp
    apply (erule m')
    done
  then obtain y w where y: "MHA_value (enc_slf_attn L) keeps c x x x src_mask = Inr (y, w)"
    "shape y = [B, S] @ [dm]" "shape w = [B, H, S, S]"
    using hd by auto
  obtain z where z: "FFN_value (enc_pos_ffn L) (keeps (c + 2)) y = Inr z" "shape z = shape y"
    using FFN_ok [OF fwf y(2), of "keeps (c + 2)"] by blast
  show ?thesis
    using y z by (simp add: EncoderLayer_value_def bindE_def)
qed

lemma Encoder_layers_ok:
  assumes wf: "list_all (EncoderLayer_wf dm H) layers"
    and x: "shape x = [B, S, dm]" and pos: "0 < B" "0 < S"
    and m: "\<And>m. src_mask = Some m \<Longrightarrow>
              shape m \<noteq> [] \<and>
              broadcast_shapes [B, H, S, S] (hd (shape m) # 1 # tl (shape m)) = Some [B, H, S, S]"
  shows "\<exists>z ws. Encoder_layers_value layers keeps c x src_mask = Inr (z, ws) \<and>
           shape z = [B, S, dm] \<and> list_all (\<lambda>w. shape w = [B, H, S, S]) ws"
  using wf x
proof (induction layers arbitrary: c x)
  case Nil
  then show ?case by simp
next
  case (Cons L Ls)
  have wfL: "EncoderLayer_wf dm H L" and wfLs: "list_all (EncoderLayer_wf dm H) Ls"
    using Cons.prems(1) by simp_all
  obtain y w where y: "EncoderLayer_value L keeps c x src_mask = Inr (y, w)"
    "shape y = [B, S, dm]" "shape w = [B, H, S, S]"
    using EncoderLayer_ok [OF wfL Cons.prems(2) pos m, of src_mask keeps c] by blast
  obtain z ws where z: "Encoder_layers_value Ls keeps (c + 3) y src_mask = Inr (z, ws)"
    "shape z = [B, S, dm]" "list_all (\<lambda>w. shape w = [B, H, S, S]) ws"
    using Cons.IH [OF wfLs y(2), of "c + 3"] by blast
  show ?case using y z by (simp add: bindE_def)
qed

lemma PE_ok:
  assumes t: "shape pos_table = [1, n, d]" and x: "shape x = [B, S, d]" and le: "S \<le> n"
  shows "\<exists>z. PE_value pos_table x = Inr z \<and> shape z = [B, S, d]"
proof -
  let ?sl = "tab [1, S, d] (elem pos_table)"
  have sl: "slice_dim1 pos_table S = Inr ?sl"
    using t le by (simp add: slice_dim1_def min_absorb1)
  obtain z where "add x ?sl = Inr z" "shape z = [B, S, d]"
    using add_table_rows [OF x, of ?sl] by auto
  then show ?thesis
    using x sl by (simp add: PE_value_def size_dim_def bindE_def)
qed

lemma sequenceE_map:
  "sequenceE (map f xs) = Inr ys \<Longrightarrow>
   length ys = length xs \<and> list_all (\<lambda>y. \<exists>x. f x = Inr y) ys"
  by (induction xs arbitrary: ys) (auto simp: bindE_def split: sum.splits)

lemma sequenceE_map_ok:
  "(\<And>x. \<exists>y. f x = Inr y) \<Longrightarrow> \<exists>ys. sequenceE (map f xs) = Inr ys"
proof (induction xs)
  case Nil
  then show ?case by simp
next
  case (Cons x xs)
  obtain y where "f x = Inr y" using Cons.prems by blast
  moreover obtain ys where "sequenceE (map f xs) = Inr ys" using Cons by blast
  ultimately show ?case by (simp add: bindE_def)
qed

lemma EncoderLayer_init_wf:
  "EncoderLayer_init d_model d_inner n_heads dk dv p pa \<theta> = Inr L \<Longrightarrow>
   EncoderLayer_wf d_model n_heads (EncoderLayer_train mode L)"
proof -
  assume a: "EncoderLayer_init d_model d_inner n_heads dk dv p pa \<theta> = Inr L"
  then obtain M F where M: "MultiHeadAttention_init n_heads d_model dk dv p pa (sub ''slf_attn'' \<theta>)
      = Inr M"
    and F: "PositionWiseFeedForward_init d_model d_inner p (sub ''pos_ffn'' \<theta>) = Inr F"
    and L: "L = \<lparr>enc_slf_attn = M, enc_pos_ffn = F\<rparr>"
    by (auto simp: EncoderLayer_init_def bindE_def split: sum.splits)
  show ?thesis
    using MHA_init_wf [OF M, of mode] FFN_init_wf [OF F, of mode]
    by (simp add: EncoderLayer_wf_def EncoderLayer_train_def L)
qed

lemma EncoderLayer_init_ok:
  "0 \<le> p \<Longrightarrow> p \<le> 1 \<Longrightarrow> 0 \<le> pa \<Longrightarrow> pa \<le> 1 \<Longrightarrow>
   \<exists>L. EncoderLayer_init d_model d_inner n_heads dk dv p pa \<theta> = Inr L"
  by (simp add: EncoderLayer_init_def MultiHeadAttention_init_def
      ScaledDotProductAttention_init_def PositionWiseFeedForward_init_def Dropout_init_def
      bindE_def)

lemma Encoder_init_result:
  assumes "Encoder_init n_layers n_steps n_features d_model d_inner n_heads dk dv p pa \<theta> \<theta>s s0
             = (Inr E, s1)"
  shows "PositionalEncoding_init d_model n_steps s0 = (Inr (enc_position_enc E), s1) \<and>
         in_features (enc_embedding E) = n_features \<and>
         out_features (enc_embedding E) = d_model \<and>
         length (enc_layer_stack E) = n_layers \<and>
         list_all (EncoderLayer_wf d_model n_heads)
           (map (EncoderLayer_train mode) (enc_layer_stack E))"
proof -
  let ?f = "\<lambda>i. EncoderLayer_init d_model d_inner n_heads dk dv p pa (\<theta>s i)"
  obtain drop pe layers where d: "Dropout_init p = Inr drop"
    and pe: "PositionalEncoding_init d_model n_steps s0 = (Inr pe, s1)"
    and ls: "sequenceE (map ?f [0..<n_layers]) = Inr layers"
    and E: "E = \<lparr>enc_embedding = Linear_init n_features d_model True (sub ''embedding'' \<theta>),
                 enc_dropout = drop, enc_position_enc = pe, enc_layer_stack = layers\<rparr>"
    using assms
    by (auto simp: Encoder_init_def bnd_def lift_def return_def split: sum.splits prod.splits)
  have l: "length layers = n_layers" and a: "list_all (\<lambda>y. \<exists>x. ?f x = Inr y) layers"
    using sequenceE_map [OF ls] by simp_all
  have "list_all (EncoderLayer_wf d_model n_heads) (map (EncoderLayer_train mode) layers)"
    using a EncoderLayer_init_wf [of d_model d_inner n_heads dk dv p pa _ _ mode]
    by (auto simp: list_all_iff)
  then show ?thesis
    using pe l by (simp add: E Linear_init_def)
qed


text \<open>
  Claim C7. Take an encoder as constructed (in training or evaluation mode), a state in
  which its table of positions is as constructed, an input \<open>x\<close> of shape
  \<open>[batch, steps, n_features]\<close> with at least one position and \<open>steps \<le> n_steps\<close>, and no
  mask or a mask that, with the axis of the heads inserted, broadcasts to
  \<open>[batch, n_heads, steps, steps]\<close>. Then \<^verbatim>\<open>forward\<close> returns with either value of the
  flag, and leaves the same state. With the flag false the result is the final hidden
  state alone; with the flag true it is that hidden state together with a list of
  \<open>n_layers\<close> tensors, the attention weights of the layers in the order in which the
  layers are applied (\<open>Encoder_value\<close>).
\<close>

theorem Encoder_forward_return_attn_weights:
  assumes init: "Encoder_init n_layers n_steps n_features d_model d_inner n_heads dk dv
                   dropout attn_dropout \<theta> \<theta>s s0 = (Inr E0, s1)"
    and E: "E = Encoder_train mode E0"
    and later: "length (heap s1) \<le> length (heap s)"
      "heap s ! length (heap s0) = heap s1 ! length (heap s0)"
    and x: "x < length (heap s)" "shape (heap s ! x) = [batch, steps, n_features]"
    and pos: "0 < batch" "0 < steps" "steps \<le> n_steps"
    and mask: "valid_ref s src_mask"
    and shm: "\<And>m. deref s src_mask = Some m \<Longrightarrow>
                shape m \<noteq> [] \<and>
                broadcast_shapes [batch, n_heads, steps, steps] (hd (shape m) # 1 # tl (shape m))
                  = Some [batch, n_heads, steps, steps]"
  shows "\<exists>h ws s'.
           Encoder_forward E x src_mask False s = (Inr (Hidden h), s') \<and>
           Encoder_forward E x src_mask True s = (Inr (HiddenAttn h ws), s') \<and>
           length ws = n_layers \<and>
           length (enc_layer_stack E) = n_layers \<and>
           h < length (heap s') \<and>
           list_all (\<lambda>a. a < length (heap s')) ws \<and>
           Encoder_value E (heap s1 ! length (heap s0)) (noise s) (rng s) (heap s ! x)
             (deref s src_mask) = Inr (heap s' ! h, map ((!) (heap s')) ws) \<and>
           shape (heap s' ! h) = [batch, steps, d_model] \<and>
           list_all (\<lambda>a. shape (heap s' ! a) = [batch, n_heads, steps, steps]) ws"
proof -
  let ?a = "length (heap s0)"
  let ?val = "Encoder_value E (heap s ! ?a) (noise s) (rng s) (heap s ! x) (deref s src_mask)"
  have r: "PositionalEncoding_init d_model n_steps s0 = (Inr (enc_position_enc E0), s1)"
    "in_features (enc_embedding E0) = n_features" "out_features (enc_embedding E0) = d_model"
    "length (enc_layer_stack E0) = n_layers"
    "list_all (EncoderLayer_wf d_model n_heads) (map (EncoderLayer_train mode) (enc_layer_stack E0))"
    using Encoder_init_result [OF init, of mode] by simp_all
  have Es: "enc_embedding E = enc_embedding E0" "enc_position_enc E = enc_position_enc E0"
    "enc_layer_stack E = map (EncoderLayer_train mode) (enc_layer_stack E0)"
    by (simp_all add: E Encoder_train_def)
  obtain T where T: "get_sinusoid_encoding_table n_steps d_model = Inr T"
    and s1: "s1 = s0\<lparr>heap := heap s0 @ [T]\<rparr>"
    and P: "enc_position_enc E0 = \<lparr>pe_buffers = [(''pos_table'', ?a)], pe_parameters = []\<rparr>"
    using PositionalEncoding_init_result [OF r(1)] by blast
  have shT: "shape T = [1, n_steps, d_model]" using sinusoid_table_spec [OF T] by simp
  have a: "?a < length (heap s)" and hT: "heap s ! ?a = T" "heap s1 ! ?a = T"
    using later s1 by simp_all
  have g: "PositionalEncoding_getattr (enc_position_enc E) ''pos_table'' = Inr ?a"
    by (simp add: PositionalEncoding_getattr_def P Es)
  have x': "shape (heap s ! x) = [batch, steps] @ [n_features]" using x(2) by simp
  obtain e where e: "linear (enc_embedding E) (heap s ! x) = Inr e"
    "shape e = [batch, steps] @ [d_model]"
    using linear_ex [of "heap s ! x" "[batch, steps]" "enc_embedding E"] x' r(2,3) Es(1) by auto
  obtain p where p: "PE_value T e = Inr p" "shape p = [batch, steps, d_model]"
    using PE_ok [OF shT _ pos(3), of e batch] e(2) by auto
  let ?d = "dropout_value (enc_dropout E) (noise s (rng s)) p"
  have d: "shape ?d = [batch, steps, d_model]" using p(2) by simp
  have "\<exists>z ws. Encoder_layers_value (enc_layer_stack E) (noise s) (Suc (rng s)) ?d
           (deref s src_mask) = Inr (z, ws) \<and>
         shape z = [batch, steps, d_model] \<and>
         list_all (\<lambda>w. shape w = [batch, n_heads, steps, steps]) ws"
    apply (rule Encoder_layers_ok [OF _ d pos(1,2)])
     apply (simp add: Es r(5))
    apply (erule shm)
    done
  then obtain z tws where z: "Encoder_layers_value (enc_layer_stack E) (noise s) (Suc (rng s)) ?d
      (deref s src_mask) = Inr (z, tws)"
    "shape z = [batch, steps, d_model]"
    "list_all (\<lambda>w. shape w = [batch, n_heads, steps, steps]) tws"
    by blast
  have val: "?val = Inr (z, tws)"
    using e(1) p(1) z(1) hT by (simp add: Encoder_value_def bindE_def)
  obtain res s' where t: "Encoder_forward E x src_mask True s = (res, s')"
    and post: "case res of
        Inl e \<Rightarrow> ?val = Inl e
      | Inr res \<Rightarrow>
          \<exists>h ws. res = HiddenAttn h ws \<and> h < length (heap s') \<and>
            list_all (\<lambda>a. a < length (heap s')) ws \<and>
            length ws = length (enc_layer_stack E) \<and>
            ?val = Inr (heap s' ! h, map ((!) (heap s')) ws)"
    using Encoder_forward_post [OF x(1) mask g a] by blast
  from post val obtain h ws where hw: "res = Inr (HiddenAttn h ws)" "h < length (heap s')"
    "list_all (\<lambda>a. a < length (heap s')) ws" "length ws = length (enc_layer_stack E)"
    "heap s' ! h = z" "map ((!) (heap s')) ws = tws"
    by (cases res) auto
  have f: "Encoder_forward E x src_mask False s = (Inr (Hidden h), s')"
    using t hw(1) by (simp add: Encoder_forward_False)
  have n: "length (enc_layer_stack E) = n_layers" using Es(3) r(4) by simp
  have shw: "list_all (\<lambda>a. shape (heap s' ! a) = [batch, n_heads, steps, steps]) ws"
    using z(3) hw(6) by (auto simp: list_all_iff)
  have v: "Encoder_value E (heap s1 ! ?a) (noise s) (rng s) (heap s ! x) (deref s src_mask)
      = Inr (heap s' ! h, map ((!) (heap s')) ws)"
    using val hw(5,6) hT by simp
  show ?thesis
    using f t hw(1,2,3,4) n v z(2) hw(5) shw by auto
qed


lemma Encoder_init_ok:
  assumes p: "0 \<le> p" "p \<le> 1" "0 \<le> pa" "pa \<le> 1" and n: "0 < n_steps"
  shows "\<exists>E s1. Encoder_init n_layers n_steps n_features d_model d_inner n_heads dk dv p pa
                   \<theta> \<theta>s s0 = (Inr E, s1) \<and>
           length (heap s1) = Suc (length (heap s0)) \<and>
           (\<forall>a<length (heap s0). heap s1 ! a = heap s0 ! a)"
proof -
  let ?f = "\<lambda>i. EncoderLayer_init d_model d_inner n_heads dk dv p pa (\<theta>s i)"
  obtain layers where ls: "sequenceE (map ?f [0..<n_layers]) = Inr layers"
    using sequenceE_map_ok [of ?f "[0..<n_layers]"] EncoderLayer_init_ok [OF p] by blast
  obtain P s1 where pe: "PositionalEncoding_init d_model n_steps s0 = (Inr P, s1)"
    "length (heap s1) = Suc (length (heap s0))" "\<forall>a<length (heap s0). heap s1 ! a = heap s0 ! a"
    using PositionalEncoding_init_ok [OF n, of d_model s0] by blast
  show ?thesis
    using p ls pe
    by (simp add: Encoder_init_def bnd_def lift_def return_def Dropout_init_def)
qed

definition layer_params :: "nat \<Rightarrow> params" where
  "layer_params i = (\<lambda>name a b. ramp_params name a b + real i)"

definition encoder_state :: state where
  "encoder_state =
     \<lparr>heap = [tab [2, 2, 2] (\<lambda>idx. real (Suc (idx ! 0)) - 2 * real (idx ! 1) + 3 * real (idx ! 2)),
              tab [2, 2, 2] (\<lambda>idx. if idx ! 1 < idx ! 2 then 1 else 0)],
      rng = 0, noise = (\<lambda>c i. even (c + i))\<rparr>"

lemma encoder_state_facts:
  "length (heap encoder_state) = 2"
  "shape (heap encoder_state ! 0) = [2, 2, 2]"
  "shape (heap encoder_state ! 1) = [2, 2, 2]"
  "elem (heap encoder_state ! 0) [1, 0, 1] = 5"
  "elem (heap encoder_state ! 1) [1, 0, 1] = 1"
  by (simp_all add: encoder_state_def elem_tab valid_idx_def)

theorem Encoder_forward_return_attn_weights_witness:
  "\<exists>E0 s1 h ws s'.
     Encoder_init 2 3 2 4 3 2 3 5 (1 / 2) (1 / 2) ramp_params layer_params encoder_state
       = (Inr E0, s1) \<and>
     length (heap encoder_state) = 2 \<and> length (heap s1) = 3 \<and>
     shape (heap s1 ! 0) = [2, 2, 2] \<and> elem (heap s1 ! 0) [1, 0, 1] = 5 \<and>
     shape (heap s1 ! 1) = [2, 2, 2] \<and> elem (heap s1 ! 1) [1, 0, 1] = 1 \<and>
     Encoder_forward (Encoder_train True E0) 0 (Some 1) False s1 = (Inr (Hidden h), s') \<and>
     Encoder_forward (Encoder_train True E0) 0 (Some 1) True s1 = (Inr (HiddenAttn h ws), s') \<and>
     length ws = 2 \<and>
     length (enc_layer_stack (Encoder_train True E0)) = 2 \<and>
     h < length (heap s') \<and>
     list_all (\<lambda>a. a < length (heap s')) ws \<and>
     Encoder_value (Encoder_train True E0) (heap s1 ! 2) (noise s1) (rng s1) (heap s1 ! 0)
       (Some (heap s1 ! 1)) = Inr (heap s' ! h, map ((!) (heap s')) ws) \<and>
     shape (heap s' ! h) = [2, 2, 4] \<and>
     list_all (\<lambda>a. shape (heap s' ! a) = [2, 2, 2, 2]) ws"
proof -
  obtain E0 s1 where i: "Encoder_init 2 3 2 4 3 2 3 5 (1 / 2) (1 / 2) ramp_params layer_params
      encoder_state = (Inr E0, s1)"
    and l1: "length (heap s1) = Suc (length (heap encoder_state))"
    and k: "\<forall>a<length (heap encoder_state). heap s1 ! a = heap encoder_state ! a"
    using Encoder_init_ok [of "1 / 2" "1 / 2" 3 2 2 4 3 2 3 5 ramp_params layer_params
        encoder_state]
    by auto
  have h: "heap s1 ! 0 = heap encoder_state ! 0" "heap s1 ! 1 = heap encoder_state ! 1"
    using k encoder_state_facts(1) by simp_all
  have l: "length (heap s1) = 3" using l1 encoder_state_facts(1) by simp
  have x: "0 < length (heap s1)" "shape (heap s1 ! 0) = [2, 2, 2]"
    using l h encoder_state_facts by simp_all
  have m: "valid_ref s1 (Some 1)" and dm: "deref s1 (Some 1) = Some (heap s1 ! 1)"
    using l by (simp_all add: valid_ref_def deref_def)
  have shm: "shape t \<noteq> [] \<and>
      broadcast_shapes [2, 2, 2, 2] (hd (shape t) # 1 # tl (shape t)) = Some [2, 2, 2, 2]"
    if "deref s1 (Some 1) = Some t" for t
  proof -
    have "shape t = [2, 2, 2]" using that dm h encoder_state_facts by simp
    then show ?thesis by (simp add: broadcast_shapes_def)
  qed
  have "\<exists>h ws s'.
           Encoder_forward (Encoder_train True E0) 0 (Some 1) False s1 = (Inr (Hidden h), s') \<and>
           Encoder_forward (Encoder_train True E0) 0 (Some 1) True s1
             = (Inr (HiddenAttn h ws), s') \<and>
           length ws = 2 \<and>
           length (enc_layer_stack (Encoder_train True E0)) = 2 \<and>
           h < length (heap s') \<and>
           list_all (\<lambda>a. a < length (heap s')) ws \<and>
           Encoder_value (Encoder_train True E0) (heap s1 ! length (heap encoder_state)) (noise s1)
             (rng s1) (heap s1 ! 0) (deref s1 (Some 1))
             = Inr (heap s' ! h, map ((!) (heap s')) ws) \<and>
           shape (heap s' ! h) = [2, 2, 4] \<and>
           list_all (\<lambda>a. shape (heap s' ! a) = [2, 2, 2, 2]) ws"
    apply (rule Encoder_forward_return_attn_weights [OF i refl order_refl refl x _ _ _ m])
       apply simp
      apply simp
     apply simp
    apply (erule shm)
    done
  then show ?thesis
    using i l x(2) h encoder_state_facts dm by auto
qed

section \<open>The decoder\<close>

text \<open>
  Claim C1. A Decoder constructed with \<open>n_layers\<close> layers should apply each of its
  constructed DecoderLayer objects in order. The code does not: \<^verbatim>\<open>Decoder.forward\<close>
  iterates \<^verbatim>\<open>self.layer_stack\<close>, while \<^verbatim>\<open>__init__\<close> stores the layers as
  \<^verbatim>\<open>self.dec_layer_stack\<close>. For every decoder, every input and every state the call
  ends in an error and returns no hidden state; no layer is applied.
\<close>

theorem Decoder_forward_never_returns:
  "\<exists>e. fst (Decoder_forward D trg_seq enc_output trg_mask src_mask return_attn_weights s) = Inl e"
  by (simp add: Decoder_forward_def bnd_def lift_def Decoder_getattr_layer_stack
      split: prod.splits sum.splits)

text \<open>
  Claim C2. \<^verbatim>\<open>DecoderLayer.forward\<close> should return self-attention, then cross-attention,
  then the feed-forward block. The code does not: it passes the masks to
  \<^verbatim>\<open>MultiHeadAttention\<close> under the keyword \<^verbatim>\<open>mask\<close>, and the parameter is named
  \<^verbatim>\<open>attn_mask\<close> (as \<^verbatim>\<open>EncoderLayer.forward\<close> passes it). Every call raises TypeError
  at the first attention call, in the state it was called in.
\<close>

theorem DecoderLayer_forward_raises:
  "DecoderLayer_forward L dec_input enc_output slf_attn_mask dec_enc_attn_mask s
     = (Inl (TypeError ''unexpected keyword argument: mask''), s)"
  by (simp add: DecoderLayer_forward_def MultiHeadAttention_call_def bnd_def lift_def
      bind_args_mask)

end
